theory Spec2Isabelle
  imports
    Main
    "HOL-Library.Sublist"
    "HOL-Library.Multiset"
    "HOL-Library.Char_ord"
    "HOL-Library.List_Lexorder"
begin

section \<open>The Treasury Package document generator\<close>

text \<open>
  A shallow embedding of \<^verbatim>\<open>generator.py\<close> (class \<^verbatim>\<open>TreasuryPackageGenerator\<close>):
  the formatter (\<^verbatim>\<open>format_date_written\<close>, \<^verbatim>\<open>number_to_words\<close>), the map builder
  (\<^verbatim>\<open>prepare_replacements\<close>), the substitution engine (\<^verbatim>\<open>replace_text_in_file\<close>) and
  the orchestrator (\<^verbatim>\<open>generate_package\<close>). A Python string is a list of 8-bit
  characters, which stand for the code points below 256. A Python integer is an
  \<^typ>\<open>int\<close>. A function that can raise returns a sum, \<open>Inl\<close> for the exception.
\<close>


subsection \<open>Exceptions\<close>

text \<open>The exceptions that the modelled functions can raise; \<open>Inl\<close> of a sum is a raise.\<close>

datatype error = ValueError | IndexError | OverflowError

subsection \<open>Python string primitives\<close>

text \<open>
  \<^verbatim>\<open>s.replace(old, new)\<close>: every non-overlapping occurrence of \<open>old\<close>, found
  from the left, is replaced by \<open>new\<close>; the scan resumes after the occurrence, so the
  inserted text is not scanned again. With an empty \<open>old\<close> Python inserts \<open>new\<close>
  before every character and at the end.
\<close>

function replace :: "'a list \<Rightarrow> 'a list \<Rightarrow> 'a list \<Rightarrow> 'a list" where
  "replace old new [] = (if old = [] then new else [])"
| "replace old new (c # cs) =
     (if old = [] then new @ c # replace old new cs
      else if prefix old (c # cs) then new @ replace old new (drop (length old) (c # cs))
      else c # replace old new cs)"
  by pat_completeness auto
termination
  by (relation "measure (\<lambda>(old, new, s). length s)") auto

text \<open>\<^verbatim>\<open>sep.join(parts)\<close>.\<close>

fun join :: "'a list \<Rightarrow> 'a list list \<Rightarrow> 'a list" where
  "join sep [] = []"
| "join sep [x] = x"
| "join sep (x # y # ys) = x @ sep @ join sep (y # ys)"

text \<open>
  The characters of a string are 8-bit and stand for the code points below 256.

  \<^verbatim>\<open>s.upper()\<close> and \<^verbatim>\<open>s.lower()\<close> work character by character. Below 256,
  \<^verbatim>\<open>upper\<close> changes the letters \<open>a\<close> to \<open>z\<close> and the codes 224 to 254 except 247
  (each to the code 32 below it) and writes \<open>SS\<close> for the code 223; \<^verbatim>\<open>lower\<close>
  changes the letters \<open>A\<close> to \<open>Z\<close> and the codes 192 to 222 except 215 (each to the
  code 32 above it). The upper-case forms of the codes 181 and 255 are the code points
  924 and 376, which no string of this model holds: the model leaves these two
  characters as they are, and is exact on every string without them.
\<close>

definition upper_char :: "char \<Rightarrow> string" where
  "upper_char c =
     (case map_of (zip ''abcdefghijklmnopqrstuvwxyz'' ''ABCDEFGHIJKLMNOPQRSTUVWXYZ'') c of
        Some u \<Rightarrow> [u]
      | None \<Rightarrow>
          (let n = (of_char c :: nat)
           in if n = 223 then ''SS''
              else if 224 \<le> n \<and> n \<le> 254 \<and> n \<noteq> 247 then [char_of (n - 32)]
              else [c]))"

definition upper :: "string \<Rightarrow> string" where
  "upper s = concat (map upper_char s)"

definition lower_char :: "char \<Rightarrow> char" where
  "lower_char c =
     (case map_of (zip ''ABCDEFGHIJKLMNOPQRSTUVWXYZ'' ''abcdefghijklmnopqrstuvwxyz'') c of
        Some l \<Rightarrow> l
      | None \<Rightarrow>
          (let n = (of_char c :: nat)
           in if 192 \<le> n \<and> n \<le> 222 \<and> n \<noteq> 215 then char_of (n + 32) else c))"

definition lower :: "string \<Rightarrow> string" where
  "lower s = map lower_char s"

text \<open>
  \<^verbatim>\<open>s.strip()\<close> removes the characters for which \<^verbatim>\<open>str.isspace\<close> holds from both
  ends: below 256 these are the codes 9 to 13, 28 to 32, 133 and 160.
\<close>

definition isspace :: "char \<Rightarrow> bool" where
  "isspace c = (of_char c \<in> set [9, 10, 11, 12, 13, 28, 29, 30, 31, 32, 133, 160 :: nat])"

definition strip :: "string \<Rightarrow> string" where
  "strip s = rev (dropWhile isspace (rev (dropWhile isspace s)))"

text \<open>Decimal digits: the value of a digit, and \<^verbatim>\<open>str(n)\<close> of an integer \<open>n \<ge> 0\<close>.\<close>

definition isdigit :: "char \<Rightarrow> bool" where
  "isdigit c = (c \<in> set ''0123456789'')"

definition digit_value :: "char \<Rightarrow> nat" where
  "digit_value c = of_char c - 48"

definition digit_char :: "nat \<Rightarrow> char" where
  "digit_char n = ''0123456789'' ! n"

function str_nat :: "int \<Rightarrow> string" where
  "str_nat n =
     (if n < 10 then [digit_char (nat n)]
      else str_nat (n div 10) @ [digit_char (nat (n mod 10))])"
  by pat_completeness auto
termination
  by (relation "measure nat") auto

declare str_nat.simps [simp del]

text \<open>
  Indexing a list, \<^verbatim>\<open>xs[i]\<close>: a negative index counts from the end, and an index
  outside the list raises \<^verbatim>\<open>IndexError\<close>.
\<close>

definition index :: "'a list \<Rightarrow> int \<Rightarrow> error + 'a" where
  "index xs i =
     (let n = int (length xs); j = (if i < 0 then i + n else i)
      in if 0 \<le> j \<and> j < n then Inr (xs ! nat j) else Inl IndexError)"

subsection \<open>\<^verbatim>\<open>int(x)\<close>\<close>

text \<open>
  \<^verbatim>\<open>int\<close> of a string: white space (the codes 9 to 13, 32, 133 and 160) around the
  literal is dropped, a sign may come first, and the digits may be separated by single
  underscores. Anything else raises \<^verbatim>\<open>ValueError\<close>, and so does a literal of more
  than 4300 digits (the interpreter's limit, at its default; leading zeros count,
  underscores do not).
\<close>

definition int_space :: "char \<Rightarrow> bool" where
  "int_space c = (of_char c \<in> set [9, 10, 11, 12, 13, 32, 133, 160 :: nat])"

fun int_digits :: "int \<Rightarrow> string \<Rightarrow> int option" where
  "int_digits acc [] = Some acc"
| "int_digits acc [c] = (if isdigit c then Some (10 * acc + int (digit_value c)) else None)"
| "int_digits acc (c # d # cs) =
     (if isdigit c then int_digits (10 * acc + int (digit_value c)) (d # cs)
      else if c = CHR ''_'' \<and> isdigit d then int_digits (10 * acc + int (digit_value d)) cs
      else None)"

definition int_of_str :: "string \<Rightarrow> error + int" where
  "int_of_str s =
     (let t = rev (dropWhile int_space (rev (dropWhile int_space s)));
          neg = (t \<noteq> [] \<and> hd t = CHR ''-'');
          u = (if t \<noteq> [] \<and> (hd t = CHR ''-'' \<or> hd t = CHR ''+'') then tl t else t)
      in case u of
           [] \<Rightarrow> Inl ValueError
         | c # cs \<Rightarrow>
             if isdigit c then
               (case int_digits (int (digit_value c)) cs of
                  None \<Rightarrow> Inl ValueError
                | Some n \<Rightarrow>
                    if 4300 < length (filter isdigit u) then Inl ValueError
                    else Inr (if neg then - n else n))
             else Inl ValueError)"

subsection \<open>The formatter: \<^verbatim>\<open>format_date_written\<close>\<close>

text \<open>
  \<^verbatim>\<open>datetime.strptime(date_str, "%Y-%m-%d")\<close> turns the format into the regular
  expression
  \<^verbatim>\<open>(?P<Y>\d\d\d\d)-(?P<m>1[0-2]|0[1-9]|[1-9])-(?P<d>3[0-1]|[1-2]\d|0[1-9]|[1-9]| [1-9])\<close>
  and matches it at the start of the string. Each group below lists, in the order of its
  alternatives, the ways it matches a prefix of the input: the value read and the rest of
  the input. A backtracking match is the first element of the list of all matches.
\<close>

definition group_Y :: "string \<Rightarrow> (nat \<times> string) list" where
  "group_Y s =
     (case s of
        a # b # c # d # rest \<Rightarrow>
          if isdigit a \<and> isdigit b \<and> isdigit c \<and> isdigit d
          then [(1000 * digit_value a + 100 * digit_value b + 10 * digit_value c + digit_value d,
                 rest)]
          else []
      | _ \<Rightarrow> [])"

definition literal :: "char \<Rightarrow> string \<Rightarrow> string list" where
  "literal x s = (case s of c # rest \<Rightarrow> if c = x then [rest] else [] | [] \<Rightarrow> [])"

definition group_m :: "string \<Rightarrow> (nat \<times> string) list" where
  "group_m s =
     (case s of a # b # rest \<Rightarrow>
        if a = CHR ''1'' \<and> b \<in> set ''012'' then [(10 + digit_value b, rest)] else []
      | _ \<Rightarrow> [])
     @ (case s of a # b # rest \<Rightarrow>
        if a = CHR ''0'' \<and> b \<in> set ''123456789'' then [(digit_value b, rest)] else []
      | _ \<Rightarrow> [])
     @ (case s of a # rest \<Rightarrow>
        if a \<in> set ''123456789'' then [(digit_value a, rest)] else []
      | _ \<Rightarrow> [])"

definition group_d :: "string \<Rightarrow> (nat \<times> string) list" where
  "group_d s =
     (case s of a # b # rest \<Rightarrow>
        if a = CHR ''3'' \<and> b \<in> set ''01'' then [(30 + digit_value b, rest)] else []
      | _ \<Rightarrow> [])
     @ (case s of a # b # rest \<Rightarrow>
        if a \<in> set ''12'' \<and> isdigit b then [(10 * digit_value a + digit_value b, rest)] else []
      | _ \<Rightarrow> [])
     @ (case s of a # b # rest \<Rightarrow>
        if a = CHR ''0'' \<and> b \<in> set ''123456789'' then [(digit_value b, rest)] else []
      | _ \<Rightarrow> [])
     @ (case s of a # rest \<Rightarrow>
        if a \<in> set ''123456789'' then [(digit_value a, rest)] else []
      | _ \<Rightarrow> [])
     @ (case s of a # b # rest \<Rightarrow>
        if a = CHR '' '' \<and> b \<in> set ''123456789'' then [(digit_value b, rest)] else []
      | _ \<Rightarrow> [])"

definition regex_matches :: "string \<Rightarrow> ((nat \<times> nat \<times> nat) \<times> string) list" where
  "regex_matches s =
     concat (map (\<lambda>(y, s1).
       concat (map (\<lambda>s2.
         concat (map (\<lambda>(m, s3).
           concat (map (\<lambda>s4.
             map (\<lambda>(d, s5). ((y, m, d), s5)) (group_d s4))
           (literal (CHR ''-'') s3)))
         (group_m s2)))
       (literal (CHR ''-'') s1)))
     (group_Y s))"

definition is_leap :: "nat \<Rightarrow> bool" where
  "is_leap y = (y mod 4 = 0 \<and> (y mod 100 \<noteq> 0 \<or> y mod 400 = 0))"

definition days_in_month :: "nat \<Rightarrow> nat \<Rightarrow> nat" where
  "days_in_month y m =
     (if m = 2 \<and> is_leap y then 29
      else [31, 28, 31, 30, 31, 30, 31, 31, 30, 31, 30, 31] ! (m - 1))"

text \<open>
  \<^verbatim>\<open>strptime\<close> raises \<^verbatim>\<open>ValueError\<close> when the expression does not match, when the
  match leaves input over, and when the numbers are no date of the calendar (years run
  from 1 to 9999).
\<close>

definition strptime :: "string \<Rightarrow> error + (nat \<times> nat \<times> nat)" where
  "strptime date_str =
     (case regex_matches date_str of
        [] \<Rightarrow> Inl ValueError
      | ((y, m, d), rest) # _ \<Rightarrow>
          if rest \<noteq> [] then Inl ValueError
          else if y < 1 \<or> m < 1 \<or> 12 < m \<or> d < 1 \<or> days_in_month y m < d then Inl ValueError
          else Inr (y, m, d))"

definition month_name :: "nat \<Rightarrow> string" where
  "month_name m =
     [''January'', ''February'', ''March'', ''April'', ''May'', ''June'', ''July'',
      ''August'', ''September'', ''October'', ''November'', ''December''] ! (m - 1)"

text \<open>
  \<^verbatim>\<open>'th' if 11 <= day <= 13 else {1:'st', 2:'nd', 3:'rd'}.get(day % 10, 'th')\<close>
\<close>

definition ordinal_suffix :: "nat \<Rightarrow> string" where
  "ordinal_suffix day =
     (if 11 \<le> day \<and> day \<le> 13 then ''th''
      else case map_of [(1, ''st''), (2, ''nd''), (3, ''rd'')] (day mod 10) of
             Some s \<Rightarrow> s | None \<Rightarrow> ''th'')"

text \<open>
  The format handed to \<^verbatim>\<open>strftime\<close> is \<^verbatim>\<open>f"%B {day}{suffix}, %Y"\<close>: the month name of
  the C locale, the day without padding, the suffix, a comma and the year. \<^verbatim>\<open>%Y\<close> is
  rendered by the C library; the model follows glibc, which writes the year as a decimal
  number without padding, so that the year 999 is written \<open>999\<close> (years from 1000 on
  have their four digits on every platform). The bare \<^verbatim>\<open>except\<close> turns every
  exception into the input string.
\<close>

definition format_date_written :: "string \<Rightarrow> string" where
  "format_date_written date_str =
     (if date_str = [] then ''''
      else case strptime date_str of
             Inr (y, m, day) \<Rightarrow>
               month_name m @ '' '' @ str_nat (int day) @ ordinal_suffix day @ '', ''
                 @ str_nat (int y)
           | Inl e \<Rightarrow> date_str)"

subsection \<open>The formatter: \<^verbatim>\<open>number_to_words\<close>\<close>

definition ones :: "string list" where
  "ones = ['''', ''ONE'', ''TWO'', ''THREE'', ''FOUR'', ''FIVE'', ''SIX'', ''SEVEN'', ''EIGHT'',
           ''NINE'', ''TEN'', ''ELEVEN'', ''TWELVE'', ''THIRTEEN'', ''FOURTEEN'', ''FIFTEEN'',
           ''SIXTEEN'', ''SEVENTEEN'', ''EIGHTEEN'', ''NINETEEN'']"

definition tens :: "string list" where
  "tens = ['''', '''', ''TWENTY'', ''THIRTY'', ''FORTY'', ''FIFTY'', ''SIXTY'', ''SEVENTY'',
           ''EIGHTY'', ''NINETY'']"

text \<open>
  \<^verbatim>\<open>_digit_words\<close>. Python's \<^verbatim>\<open>//\<close> and \<^verbatim>\<open>%\<close> round towards minus infinity, as
  \<open>div\<close> and \<open>mod\<close> on \<^typ>\<open>int\<close> do. The table lookups can raise \<^verbatim>\<open>IndexError\<close>.
\<close>

function digit_words :: "int \<Rightarrow> error + string" where
  "digit_words n =
     (if n < 20 then index ones n
      else if n < 100 then
        (case index tens (n div 10) of
           Inl e \<Rightarrow> Inl e
         | Inr t \<Rightarrow>
             if n mod 10 \<noteq> 0 then
               (case index ones (n mod 10) of
                  Inl e \<Rightarrow> Inl e
                | Inr u \<Rightarrow> Inr (t @ ''-'' @ u))
             else Inr (t @ ''''))
      else
        (case index ones (n div 100) of
           Inl e \<Rightarrow> Inl e
         | Inr h \<Rightarrow>
             if n mod 100 \<noteq> 0 then
               (case digit_words (n mod 100) of
                  Inl e \<Rightarrow> Inl e
                | Inr r \<Rightarrow> Inr (h @ '' HUNDRED'' @ '' '' @ r))
             else Inr (h @ '' HUNDRED'' @ '''')))"
  by pat_completeness auto
termination
  by (relation "measure nat") auto

declare digit_words.simps [simp del]

text \<open>One step of \<^verbatim>\<open>if x: words.append(f"{self._digit_words(x)} UNIT")\<close>.\<close>

definition append_segment :: "int \<Rightarrow> string \<Rightarrow> string list \<Rightarrow> error + string list" where
  "append_segment x unit words =
     (if x \<noteq> 0 then
        (case digit_words x of
           Inl e \<Rightarrow> Inl e
         | Inr w \<Rightarrow> Inr (words @ [w @ '' '' @ unit]))
      else Inr words)"

definition number_to_words :: "int \<Rightarrow> error + string" where
  "number_to_words num =
     (let billions = num div 1000000000;
          millions = (num mod 1000000000) div 1000000;
          thousands = (num mod 1000000) div 1000
      in case append_segment billions ''BILLION'' [] of
           Inl e \<Rightarrow> Inl e
         | Inr words1 \<Rightarrow>
        (case append_segment millions ''MILLION'' words1 of
           Inl e \<Rightarrow> Inl e
         | Inr words2 \<Rightarrow>
        (case append_segment thousands ''THOUSAND'' words2 of
           Inl e \<Rightarrow> Inl e
         | Inr words \<Rightarrow>
             Inr (if words \<noteq> [] then join '' '' words else ''ZERO''))))"


subsection \<open>Money: \<^verbatim>\<open>f"${amount:,.2f}"\<close>\<close>

text \<open>
  The format type \<^verbatim>\<open>f\<close> first converts the integer to a double. The conversion is exact
  below \<open>2 ^ 53\<close>; above, the integer is rounded to 53 significant bits, ties to even, and
  an integer that rounds to \<open>2 ^ 1024\<close> or more raises \<^verbatim>\<open>OverflowError\<close>. The result
  is given as the integer the double stands for.
\<close>

function bit_length :: "int \<Rightarrow> nat" where
  "bit_length n = (if n \<le> 0 then 0 else Suc (bit_length (n div 2)))"
  by pat_completeness auto
termination
  by (relation "measure nat") auto

declare bit_length.simps [simp del]

definition float_of_int :: "int \<Rightarrow> error + int" where
  "float_of_int n =
     (let a = \<bar>n\<bar> in
      if a < 2 ^ 53 then Inr n
      else
        let e = bit_length a - 53;
            q = a div 2 ^ e;
            r = a mod 2 ^ e;
            half = 2 ^ (e - 1);
            q' = (if half < r \<or> (r = half \<and> odd q) then q + 1 else q);
            v = q' * 2 ^ e
        in if 2 ^ 1024 \<le> v then Inl OverflowError
           else Inr (if n < 0 then - v else v))"

text \<open>The thousands separators of the \<^verbatim>\<open>,\<close> option, on the reversed digits.\<close>

fun commas :: "string \<Rightarrow> string" where
  "commas (a # b # c # d # rest) = a # b # c # CHR '','' # commas (d # rest)"
| "commas ds = ds"

definition format_money :: "int \<Rightarrow> error + string" where
  "format_money amount =
     (case float_of_int amount of
        Inl e \<Rightarrow> Inl e
      | Inr v \<Rightarrow>
          Inr (''$'' @ (if v < 0 then ''-'' else '''')
               @ rev (commas (rev (str_nat \<bar>v\<bar>))) @ ''.00''))"

subsection \<open>The customer record\<close>

text \<open>
  The customer data is a dictionary read only through \<^verbatim>\<open>data.get(field, default)\<close>
  with a fixed set of field names: a record of optional fields, \<open>None\<close> for a field the
  dictionary does not have. Every field is a string but the lien amount, which is an
  integer or, as in the sample data of \<^verbatim>\<open>main\<close>, a string handed to \<^verbatim>\<open>int\<close>.
\<close>

datatype lien = LienInt int | LienStr string

record customer =
  firstName :: "string option"
  middleName :: "string option"
  lastName :: "string option"
  ssn :: "string option"
  lienAmount :: "lien option"
  documentDate :: "string option"
  birthDate :: "string option"
  streetAddress :: "string option"
  city :: "string option"
  state :: "string option"
  zipCode :: "string option"
  county :: "string option"
  uccFilingNumber :: "string option"
  uccFilingState :: "string option"
  registeredMailNumber :: "string option"
  dtcRoutingNumber :: "string option"
  dtcAccountNumber :: "string option"
  birthCertNumber :: "string option"

text \<open>\<^verbatim>\<open>data.get(field, default)\<close>.\<close>

definition get :: "'a option \<Rightarrow> 'a \<Rightarrow> 'a" where
  "get field dflt = (case field of None \<Rightarrow> dflt | Some v \<Rightarrow> v)"

text \<open>\<^verbatim>\<open>int(x)\<close> of a lien amount.\<close>

definition int_of :: "lien \<Rightarrow> error + int" where
  "int_of x = (case x of LienInt n \<Rightarrow> Inr n | LienStr s \<Rightarrow> int_of_str s)"

subsection \<open>The map builder: \<^verbatim>\<open>prepare_replacements\<close>\<close>

text \<open>\<^verbatim>\<open>last[:3].upper() if last else 'XXX'\<close>, the prefix of the file reference numbers.\<close>

definition name_prefix :: "string \<Rightarrow> string" where
  "name_prefix last' = (if last' \<noteq> [] then upper (take 3 last') else ''XXX'')"

text \<open>\<^verbatim>\<open>x[0] if x else ''\<close>.\<close>

definition initial :: "string \<Rightarrow> string" where
  "initial x = (if x \<noteq> [] then [hd x] else '''')"

text \<open>
  The dictionary literal that \<^verbatim>\<open>prepare_replacements\<close> returns, entry by entry in the
  order of the source, once the lien amount and its renderings are there.
\<close>

definition replacement_items ::
  "customer \<Rightarrow> int \<Rightarrow> string \<Rightarrow> string \<Rightarrow> string \<Rightarrow> string \<Rightarrow> (string \<times> string) list" where
  "replacement_items data lien_amount lien_formatted lien_words lien_formatted_1000
      lien_words_1000 =
     (let first = get (firstName data) '''';
          middle = get (middleName data) '''';
          last' = get (lastName data) '''';
          full_parts = (if middle \<noteq> [] then [first, middle, last'] else [first, last']);
          full_name_upper = upper (join '' '' full_parts);
          full_name_styled = (if middle \<noteq> [] then first @ ''-'' @ middle @ '': '' @ last'
                              else first @ '': '' @ last');
          ssn' = get (ssn data) '''';
          ssn_no_dashes = replace ''-'' '''' ssn';
          doc_date = get (documentDate data) '''';
          doc_date_written = format_date_written doc_date;
          birth_date = get (birthDate data) '''';
          birth_date_written = format_date_written birth_date
      in
      [(''THOMAS KALLEN CLAYCOMB'', full_name_upper),
       (''THOMAS K CLAYCOMB'', full_name_upper),
       (''THOMAS CLAYCOMB'', upper (first @ '' '' @ last')),
       (''T KALLEN CLAYCOMB'',
          if middle \<noteq> [] then upper (initial first @ '' '' @ middle @ '' '' @ last')
          else full_name_upper),
       (''TKC'',
          if first \<noteq> [] \<and> last' \<noteq> [] then upper ([hd first] @ initial middle @ [hd last'])
          else ''''),
       (''Thomas-Kallen: Claycomb'', full_name_styled),
       (''Thomas-Kallen: CLaycomb'', full_name_styled),
       (''Thomas K. Claycomb'',
          replace '' .'' '''' (strip (first @ '' '' @ initial middle @ ''. '' @ last'))),
       (''Thomas Kallen Claycomb'',
          if middle \<noteq> [] then first @ '' '' @ middle @ '' '' @ last' else first @ '' '' @ last'),
       (''493-74-8357'', ssn'),
       (''493748357'', ssn_no_dashes),
       (''**493-74-8357**'', ''**'' @ ssn' @ ''**''),
       (''**493748357**'', ''**'' @ ssn_no_dashes @ ''**''),
       (''#493-74-8357'', ''#'' @ ssn'),
       (''#493748357'', ''#'' @ ssn_no_dashes),
       (''6316 East 113th Avenue'', get (streetAddress data) ''''),
       (''c/o 6316 East 113th Avenue'', ''c/o '' @ get (streetAddress data) ''''),
       (''6316 EAST 113TH AVENUE'', upper (get (streetAddress data) '''')),
       (''Temple Terrace'', get (city data) ''''),
       (''TEMPLE TERRACE'', upper (get (city data) '''')),
       (''Florida'', get (state data) ''''),
       (''FLORIDA'', upper (get (state data) '''')),
       (''Florida Republic'', get (state data) '''' @ '' Republic''),
       (''Florida State'', get (state data) '''' @ '' State''),
       (''33617'', get (zipCode data) ''''),
       (''[33617]'', ''['' @ get (zipCode data) '''' @ '']''),
       (''near [33617]'', ''near ['' @ get (zipCode data) '''' @ '']''),
       (''Hillsborough'', get (county data) ''''),
       (''HILLSBOROUGH'', upper (get (county data) '''')),
       (''Hillsborough County'', get (county data) '''' @ '' County''),
       (''HILLSBOROUGH COUNTY'', upper (get (county data) '''') @ '' COUNTY''),
       (''XXXXXXXXXXXXX'', get (uccFilingNumber data) ''''),
       (''xxxxxxxxxxxxxxxxx'', get (uccFilingNumber data) ''''),
       (''XXXXXXXXXXXXXX'', get (uccFilingNumber data) ''''),
       (''numberXXXXXXXXXXX'', ''number'' @ get (uccFilingNumber data) ''''),
       (''New York'', get (uccFilingState data) ''''),
       (''NEW YORK'', upper (get (uccFilingState data) '''')),
       (''RF737860948US'', get (registeredMailNumber data) ''''),
       (''**RF737860948US**'', ''**'' @ get (registeredMailNumber data) '''' @ ''**''),
       (''RF737860934US'', get (registeredMailNumber data) ''''),
       (''0810-0004-5'', get (dtcRoutingNumber data) ''''),
       (''????????'', get (dtcRoutingNumber data) ''''),
       (''053045139'', get (dtcAccountNumber data) ''''),
       (''$100,000,000.00'', lien_formatted),
       (CHR 0x5C # ''$100,000,000.00'', lien_formatted),
       (''ONE HUNDRED MILLION'', lien_words),
       (''one hundred million'', lower lien_words),
       (''$100,000,000,000.00'', lien_formatted_1000),
       (''ONE HUNDRED BILLION'', lien_words_1000),
       (''April 7, 2025'', doc_date_written),
       (''April 7th, 2025'', doc_date_written),
       (''March 25, 2025'', doc_date_written),
       (''March 9, 2025'', doc_date_written),
       (''4/7/2025'', if doc_date \<noteq> [] then doc_date else ''''),
       (''October 12th 1962'', birth_date_written),
       (''October 12th, 1962'', birth_date_written),
       (''124-62-071026'', get (birthCertNumber data) ''''),
       (''109-71-015876'', get (birthCertNumber data) ''''),
       (''109-1971-015876'', get (birthCertNumber data) ''''),
       (''TKC020371ANP'', name_prefix last' @ ''020371ANP''),
       (''TKC-101362HHIA'', name_prefix last' @ ''-101362HHIA''),
       (''TKC-101262CLC'', name_prefix last' @ ''-101262CLC''),
       (''TKC-101262-CAD'', name_prefix last' @ ''-101262-CAD''),
       (''101262HHIA'', ''101262HHIA''),
       (''JAD-SA020371'', name_prefix last' @ ''-SA020371''),
       (''TKC -- 10121962'',
          name_prefix last' @ '' -- ''
          @ (if birth_date \<noteq> [] then replace ''-'' '''' birth_date else ''''))])"

text \<open>
  \<^verbatim>\<open>prepare_replacements\<close>: the statements that can raise, in the order in which Python
  runs them, then the dictionary.
\<close>

definition prepare_replacements :: "customer \<Rightarrow> error + (string \<times> string) list" where
  "prepare_replacements data =
     (case int_of (get (lienAmount data) (LienInt 100000000)) of
        Inl e \<Rightarrow> Inl e
      | Inr lien_amount \<Rightarrow>
     (case format_money lien_amount of
        Inl e \<Rightarrow> Inl e
      | Inr lien_formatted \<Rightarrow>
     (case number_to_words lien_amount of
        Inl e \<Rightarrow> Inl e
      | Inr lien_words \<Rightarrow>
     (case format_money (lien_amount * 1000) of
        Inl e \<Rightarrow> Inl e
      | Inr lien_formatted_1000 \<Rightarrow>
     (case number_to_words (lien_amount * 1000) of
        Inl e \<Rightarrow> Inl e
      | Inr lien_words_1000 \<Rightarrow>
          Inr (replacement_items data lien_amount lien_formatted lien_words
                 lien_formatted_1000 lien_words_1000))))))"


subsection \<open>The substitution engine: \<^verbatim>\<open>replace_text_in_file\<close>\<close>

text \<open>
  The engine never looks inside a character, so it is defined for any character type. A
  replacement map is the list of the dictionary's items in iteration order.

  \<^verbatim>\<open>sorted(replacements.items(), key=lambda x: len(x[0]), reverse=True)\<close>:
  Python's sort is stable, also with \<^verbatim>\<open>reverse=True\<close>, so the items come out by
  descending key length and items with keys of one length keep the order of the map.
\<close>

definition sorted_items :: "('a list \<times> 'b) list \<Rightarrow> ('a list \<times> 'b) list" where
  "sorted_items replacements = sort_key (\<lambda>x. - int (length (fst x))) replacements"

text \<open>The body of the loop: \<^verbatim>\<open>if old and new: result = result.replace(old, str(new))\<close>.\<close>

definition substitute :: "'a list \<times> 'a list \<Rightarrow> 'a list \<Rightarrow> 'a list" where
  "substitute item result =
     (case item of (old, new) \<Rightarrow>
        if old \<noteq> [] \<and> new \<noteq> [] then replace old new result else result)"

definition replace_text_in_file :: "'a list \<Rightarrow> ('a list \<times> 'a list) list \<Rightarrow> 'a list" where
  "replace_text_in_file content replacements =
     fold substitute (sorted_items replacements) content"

text \<open>An item that passes the guard of the loop, and a map whose replacement values share
  no character with its keys (both over the items that pass the guard).\<close>

definition active :: "'a list \<times> 'a list \<Rightarrow> bool" where
  "active item = (fst item \<noteq> [] \<and> snd item \<noteq> [])"

definition fresh_values :: "('a list \<times> 'a list) list \<Rightarrow> bool" where
  "fresh_values m =
     (\<forall>x \<in> set m. \<forall>y \<in> set m. active x \<and> active y \<longrightarrow> set (fst y) \<inter> set (snd x) = {})"


subsection \<open>The orchestrator: \<^verbatim>\<open>generate_package\<close>\<close>

text \<open>\<^verbatim>\<open>os.path.join(a, b)\<close> on a POSIX system.\<close>

definition path_join :: "string \<Rightarrow> string \<Rightarrow> string" where
  "path_join a b =
     (if b \<noteq> [] \<and> hd b = CHR ''/'' then b
      else if a = [] \<or> last a = CHR ''/'' then a @ b
      else a @ ''/'' @ b)"

text \<open>
  The name of the output file:
  \<^verbatim>\<open>template_name.replace('_TKC', f'_{last_name}').replace('_JAD', f'_{last_name}')\<close>
  with \<^verbatim>\<open>last_name = customer_data.get('lastName', 'Customer')\<close>.
\<close>

definition output_name :: "customer \<Rightarrow> string \<Rightarrow> string" where
  "output_name customer_data template_name =
     (let last_name = get (lastName customer_data) ''Customer''
      in replace ''_JAD'' (''_'' @ last_name)
           (replace ''_TKC'' (''_'' @ last_name) template_name))"

text \<open>
  \<^verbatim>\<open>generate_package\<close> reaches the file system through \<^verbatim>\<open>os.makedirs\<close>,
  \<^verbatim>\<open>os.listdir\<close> and \<^verbatim>\<open>process_docx_xml\<close>, which unpacks, rewrites and repacks a
  document container with the libraries \<^verbatim>\<open>zipfile\<close>, \<^verbatim>\<open>tempfile\<close> and \<^verbatim>\<open>os\<close>. The
  file system is outside the program, so these three operations are a parameter: they
  act on a state \<open>'w\<close> of the outside world and are free to succeed or to raise. An
  operation that raises returns the message of its exception (\<open>Inl\<close>, or \<open>Some\<close> for
  \<^verbatim>\<open>process_docx_xml\<close>, which returns nothing when it succeeds). All that
  \<^verbatim>\<open>generate_package\<close> sees of \<^verbatim>\<open>process_docx_xml\<close> is whether it returns or raises.
\<close>

record 'w system =
  makedirs :: "string \<Rightarrow> 'w \<Rightarrow> string + 'w"
  listdir :: "string \<Rightarrow> 'w \<Rightarrow> string + string list"
  process_docx_xml :: "string \<Rightarrow> (string \<times> string) list \<Rightarrow> string \<Rightarrow> 'w \<Rightarrow> string option \<times> 'w"

text \<open>The dictionary that \<^verbatim>\<open>generate_package\<close> returns; an entry of \<open>errors\<close> is the
  pair of its \<^verbatim>\<open>'file'\<close> and its \<^verbatim>\<open>'error'\<close>.\<close>

record package_result =
  generated :: "string list"
  errors :: "(string \<times> string) list"
  output_dir :: string

text \<open>What \<^verbatim>\<open>generate_package\<close> lets through: an exception of \<^verbatim>\<open>prepare_replacements\<close>
  or one of the operating system.\<close>

datatype failure = Raised error | OSError string

text \<open>
  The body of the loop over the templates, on the lists built so far and the state of the
  world. The \<^verbatim>\<open>try\<close> catches the exception of \<^verbatim>\<open>process_docx_xml\<close> and the loop goes
  on. The \<^verbatim>\<open>print\<close> calls are left out.
\<close>

definition process_template ::
  "'w system \<Rightarrow> string \<Rightarrow> customer \<Rightarrow> string \<Rightarrow> (string \<times> string) list \<Rightarrow> string
   \<Rightarrow> string list \<times> (string \<times> string) list \<times> 'w
   \<Rightarrow> string list \<times> (string \<times> string) list \<times> 'w" where
  "process_template sys template_dir customer_data out_dir replacements template_name acc =
     (case acc of (generated_files, errs, w) \<Rightarrow>
        let template_path = path_join template_dir template_name;
            out_name = output_name customer_data template_name;
            output_path = path_join out_dir out_name
        in (case process_docx_xml sys template_path replacements output_path w of
              (None, w') \<Rightarrow> (generated_files @ [output_path], errs, w')
            | (Some e, w') \<Rightarrow> (generated_files, errs @ [(template_name, e)], w')))"

definition generate_package ::
  "'w system \<Rightarrow> string \<Rightarrow> customer \<Rightarrow> string \<Rightarrow> 'w \<Rightarrow> failure + package_result \<times> 'w" where
  "generate_package sys template_dir customer_data out_dir w =
     (case makedirs sys out_dir w of
        Inl msg \<Rightarrow> Inl (OSError msg)
      | Inr w1 \<Rightarrow>
     (case prepare_replacements customer_data of
        Inl e \<Rightarrow> Inl (Raised e)
      | Inr replacements \<Rightarrow>
     (case listdir sys template_dir w1 of
        Inl msg \<Rightarrow> Inl (OSError msg)
      | Inr names \<Rightarrow>
          let templates = sort (filter (suffix ''.docx'') names)
          in (case fold (process_template sys template_dir customer_data out_dir replacements)
                     templates ([], [], w1) of
                (generated_files, errs, w2) \<Rightarrow>
                  Inr (\<lparr>generated = generated_files, errors = errs, output_dir = out_dir\<rparr>,
                       w2)))))"

subsection \<open>Concrete inputs\<close>

text \<open>The customer record with no field, and the sample record of \<^verbatim>\<open>main\<close>.\<close>

definition empty_customer :: customer where
  "empty_customer =
     \<lparr>firstName = None, middleName = None, lastName = None, ssn = None, lienAmount = None,
      documentDate = None, birthDate = None, streetAddress = None, city = None,
      state = None, zipCode = None, county = None, uccFilingNumber = None,
      uccFilingState = None, registeredMailNumber = None, dtcRoutingNumber = None,
      dtcAccountNumber = None, birthCertNumber = None\<rparr>"

definition sample_data :: customer where
  "sample_data =
     \<lparr>firstName = Some ''John'', middleName = Some ''Michael'', lastName = Some ''Smith'',
      ssn = Some ''123-45-6789'', lienAmount = Some (LienStr ''100000000''),
      documentDate = Some ''2025-01-15'', birthDate = Some ''1985-06-15'',
      streetAddress = Some ''456 Oak Lane'', city = Some ''Houston'', state = Some ''Texas'',
      zipCode = Some ''77001'', county = Some ''Harris'',
      uccFilingNumber = Some ''202512345678'', uccFilingState = Some ''New York'',
      registeredMailNumber = Some ''RF123456789US'', dtcRoutingNumber = Some ''0810-0001-2'',
      dtcAccountNumber = Some ''012345678'', birthCertNumber = Some ''124-85-061589''\<rparr>"

text \<open>
  A corpus of five templates in which processing the second one raises, a directory
  listing that also holds a file that is no template, and a world without state.
\<close>

definition five_templates :: "string list" where
  "five_templates =
     [''03_Notice_TKC.docx'', ''01_Agreement_TKC.docx'', ''notes.txt'',
      ''02_Affidavit_JAD.docx'', ''05_Power.docx'', ''04_Act_TKC.docx'']"

definition one_fails :: "unit system" where
  "one_fails =
     \<lparr>makedirs = (\<lambda>path w. Inr w),
      listdir = (\<lambda>path w. Inr five_templates),
      process_docx_xml = (\<lambda>template_path replacements output_path w.
        (if template_path = ''templates/02_Affidavit_JAD.docx''
         then Some ''File is not a zip file'' else None, w))\<rparr>"

subsection \<open>Notions used in the statements\<close>

text \<open>The ISO form of a date, \<^verbatim>\<open>YYYY-MM-DD\<close> with leading zeros.\<close>

definition year4 :: "nat \<Rightarrow> string" where
  "year4 y = replicate (4 - length (str_nat (int y))) (CHR ''0'') @ str_nat (int y)"

definition two_digits :: "nat \<Rightarrow> string" where
  "two_digits n = [digit_char (n div 10), digit_char (n mod 10)]"

definition iso_date :: "nat \<Rightarrow> nat \<Rightarrow> nat \<Rightarrow> string" where
  "iso_date y m d = year4 y @ ''-'' @ two_digits m @ ''-'' @ two_digits d"


text \<open>Two customer records in which every string field is read as the same string by
  \<^verbatim>\<open>data.get(field, '')\<close>.\<close>

definition same_strings :: "customer \<Rightarrow> customer \<Rightarrow> bool" where
  "same_strings x y =
     (get (firstName x) '''' = get (firstName y) ''''
      \<and> get (middleName x) '''' = get (middleName y) ''''
      \<and> get (lastName x) '''' = get (lastName y) ''''
      \<and> get (ssn x) '''' = get (ssn y) ''''
      \<and> get (documentDate x) '''' = get (documentDate y) ''''
      \<and> get (birthDate x) '''' = get (birthDate y) ''''
      \<and> get (streetAddress x) '''' = get (streetAddress y) ''''
      \<and> get (city x) '''' = get (city y) ''''
      \<and> get (state x) '''' = get (state y) ''''
      \<and> get (zipCode x) '''' = get (zipCode y) ''''
      \<and> get (county x) '''' = get (county y) ''''
      \<and> get (uccFilingNumber x) '''' = get (uccFilingNumber y) ''''
      \<and> get (uccFilingState x) '''' = get (uccFilingState y) ''''
      \<and> get (registeredMailNumber x) '''' = get (registeredMailNumber y) ''''
      \<and> get (dtcRoutingNumber x) '''' = get (dtcRoutingNumber y) ''''
      \<and> get (dtcAccountNumber x) '''' = get (dtcAccountNumber y) ''''
      \<and> get (birthCertNumber x) '''' = get (birthCertNumber y) '''')"


text \<open>What processing a template gives in the world \<open>w\<close>: \<open>None\<close> when
  \<^verbatim>\<open>process_docx_xml\<close> returns, the message when it raises.\<close>

definition outcome_of ::
  "'w system \<Rightarrow> string \<Rightarrow> customer \<Rightarrow> string \<Rightarrow> (string \<times> string) list \<Rightarrow> 'w \<Rightarrow> string
   \<Rightarrow> string option" where
  "outcome_of sys template_dir customer_data out_dir replacements w template_name =
     fst (process_docx_xml sys (path_join template_dir template_name) replacements
            (path_join out_dir (output_name customer_data template_name)) w)"

text \<open>The map that \<^verbatim>\<open>prepare_replacements\<close> builds when the lien amount is 100000000,
  the default.\<close>

definition default_lien_items :: "customer \<Rightarrow> (string \<times> string) list" where
  "default_lien_items data =
     replacement_items data 100000000 ''$100,000,000.00'' ''ONE HUNDRED MILLION''
       ''$100,000,000,000.00'' ''ONE HUNDRED BILLION''"


section \<open>Properties of the substitution engine\<close>

lemma sorted_items_descending:
  "sorted_wrt (\<lambda>a b. length (fst b) \<le> length (fst a)) (sorted_items m)"
proof -
  have "sorted (map (\<lambda>x. - int (length (fst x))) (sorted_items m))"
    unfolding sorted_items_def by (rule sorted_sort_key)
  then show ?thesis
    by (simp add: sorted_wrt_map)
qed

lemma set_sorted_items: "set (sorted_items m) = set m"
  by (simp add: sorted_items_def)

lemma mset_sorted_items: "mset (sorted_items m) = mset m"
  by (simp add: sorted_items_def)


lemma replace_absent: "\<not> sublist old s \<Longrightarrow> replace old new s = s"
proof (induction old new s rule: replace.induct)
  case (1 old new)
  then show ?case by auto
next
  case (2 old new c cs)
  then show ?case by (auto simp: sublist_Cons_right)
qed

lemma substitute_inactive: "\<not> active item \<Longrightarrow> substitute item s = s"
  by (auto simp: substitute_def active_def split: prod.splits)

lemma substitute_absent: "\<not> sublist (fst item) s \<Longrightarrow> substitute item s = s"
  by (auto simp: substitute_def replace_absent split: prod.splits)

lemma fold_substitute_filter:
  "fold substitute (filter active xs) s = fold substitute xs s"
  by (induction xs arbitrary: s) (simp_all add: substitute_inactive)

lemma sorted_items_filter: "sorted_items (filter P m) = filter P (sorted_items m)"
  by (simp add: sorted_items_def filter_sort)

lemma replace_text_in_file_active:
  "replace_text_in_file t (filter active m) = replace_text_in_file t m"
  by (simp add: replace_text_in_file_def sorted_items_filter fold_substitute_filter)

lemma fold_substitute_id:
  "(\<forall>item \<in> set xs. \<not> active item \<or> \<not> sublist (fst item) s) \<Longrightarrow> fold substitute xs s = s"
proof (induction xs)
  case Nil
  then show ?case by simp
next
  case (Cons x xs)
  then have "substitute x s = s"
    using substitute_inactive substitute_absent by fastforce
  with Cons show ?case by simp
qed

lemma prefix_fresh_append:
  assumes "new \<noteq> []" "set p \<inter> set new = {}" "prefix p (new @ r)"
  shows "p = []"
proof (cases p)
  case Nil
  then show ?thesis .
next
  case (Cons a p')
  obtain b new' where new: "new = b # new'"
    using assms(1) by (cases new) auto
  from assms(3) Cons new have "a = b" by simp
  with assms(2) Cons new show ?thesis by simp
qed

lemma prefix_replace:
  assumes "new \<noteq> []" "set p \<inter> set new = {}" "prefix p (replace old new s)"
  shows "prefix p s"
  using assms
proof (induction old new s arbitrary: p rule: replace.induct)
  case (1 old new)
  then show ?case
    using prefix_fresh_append [of new p "[]"] by (auto split: if_splits)
next
  case (2 old new c cs)
  show ?case
  proof (cases "old = [] \<or> prefix old (c # cs)")
    case True
    then obtain r where "replace old new (c # cs) = new @ r"
      by (cases "old = []") auto
    with "2.prems" have "p = []"
      using prefix_fresh_append by metis
    then show ?thesis by simp
  next
    case False
    with "2.prems"(3) have pre: "prefix p (c # replace old new cs)"
      by simp
    show ?thesis
    proof (cases p)
      case Nil
      then show ?thesis by simp
    next
      case (Cons a p')
      with pre have "a = c" "prefix p' (replace old new cs)"
        by simp_all
      moreover have "set p' \<inter> set new = {}"
        using "2.prems"(2) Cons by auto
      ultimately have "prefix p' cs"
        using "2.IH"(3) [of p'] False "2.prems"(1) by simp
      with \<open>a = c\<close> Cons show ?thesis by simp
    qed
  qed
qed

lemma sublist_fresh_append:
  assumes "k \<noteq> []" "set k \<inter> set new = {}" "sublist k (new @ r)"
  shows "sublist k r"
  using assms
proof (induction new)
  case Nil
  then show ?case by simp
next
  case (Cons b new')
  obtain a k' where k: "k = a # k'"
    using Cons.prems(1) by (cases k) auto
  with Cons.prems(2) have "a \<noteq> b" by auto
  with k have "\<not> prefix k (b # new' @ r)" by simp
  with Cons.prems(3) have "sublist k (new' @ r)"
    by (simp add: sublist_Cons_right)
  with Cons show ?case by auto
qed

lemma sublist_Cons_replace:
  assumes "new \<noteq> []" "set k \<inter> set new = {}" "sublist k (c # replace old new cs)"
    and IH: "sublist k (replace old new cs) \<Longrightarrow> sublist k cs"
  shows "sublist k (c # cs)"
proof (cases "prefix k (c # replace old new cs)")
  case True
  show ?thesis
  proof (cases k)
    case Nil
    then show ?thesis by simp
  next
    case (Cons a k')
    with True have "a = c" "prefix k' (replace old new cs)" by simp_all
    moreover have "set k' \<inter> set new = {}" using assms(2) Cons by auto
    ultimately have "prefix k' cs"
      using prefix_replace [OF assms(1)] by blast
    with \<open>a = c\<close> Cons have "prefix k (c # cs)" by simp
    then show ?thesis by (simp add: sublist_Cons_right)
  qed
next
  case False
  with assms(3) have "sublist k (replace old new cs)"
    by (simp add: sublist_Cons_right)
  then show ?thesis using IH by (simp add: sublist_Cons_right)
qed

lemma sublist_replace:
  assumes "new \<noteq> []" "k \<noteq> []" "set k \<inter> set new = {}" "sublist k (replace old new s)"
  shows "sublist k s"
  using assms
proof (induction old new s rule: replace.induct)
  case (1 old new)
  then have "sublist k (new @ [])" by (simp split: if_splits)
  then have "sublist k []"
    using sublist_fresh_append "1.prems"(2,3) by blast
  with "1.prems"(2) show ?case by simp
next
  case (2 old new c cs)
  consider (empty) "old = []" | (hit) "old \<noteq> []" "prefix old (c # cs)"
    | (miss) "old \<noteq> []" "\<not> prefix old (c # cs)" by blast
  then show ?case
  proof cases
    case empty
    with "2.prems"(4) have "sublist k (new @ c # replace old new cs)" by simp
    then have "sublist k (c # replace old new cs)"
      using sublist_fresh_append "2.prems"(2,3) by blast
    then show ?thesis
      using sublist_Cons_replace [OF "2.prems"(1,3)] "2.IH"(1) [OF empty "2.prems"(1,2,3)]
      by blast
  next
    case hit
    with "2.prems"(4) have "sublist k (new @ replace old new (drop (length old) (c # cs)))"
      by simp
    then have "sublist k (replace old new (drop (length old) (c # cs)))"
      using sublist_fresh_append "2.prems"(2,3) by blast
    then have "sublist k (drop (length old) (c # cs))"
      using "2.IH"(2) [OF hit "2.prems"(1,2,3)] by blast
    then show ?thesis
      using sublist_drop sublist_order.order_trans by blast
  next
    case miss
    with "2.prems"(4) have "sublist k (c # replace old new cs)" by simp
    then show ?thesis
      using sublist_Cons_replace [OF "2.prems"(1,3)] "2.IH"(3) [OF miss "2.prems"(1,2,3)]
      by blast
  qed
qed

lemma replace_removes:
  assumes "new \<noteq> []" "old \<noteq> []" "set old \<inter> set new = {}"
  shows "\<not> sublist old (replace old new s)"
  using assms
proof (induction old new s rule: replace.induct)
  case (1 old new)
  then show ?case by simp
next
  case (2 old new c cs)
  show ?case
  proof (cases "prefix old (c # cs)")
    case True
    have "\<not> sublist old (replace old new (drop (length old) (c # cs)))"
      using "2.IH"(2) [OF "2.prems"(2) True "2.prems"] .
    then have "\<not> sublist old (new @ replace old new (drop (length old) (c # cs)))"
      using sublist_fresh_append "2.prems"(2,3) by blast
    with True "2.prems"(2) show ?thesis by simp
  next
    case False
    have IH: "\<not> sublist old (replace old new cs)"
      using "2.IH"(3) [OF "2.prems"(2) False "2.prems"] .
    have "\<not> prefix old (c # replace old new cs)"
    proof
      assume pre: "prefix old (c # replace old new cs)"
      obtain a k' where k: "old = a # k'"
        using "2.prems"(2) by (cases old) auto
      with pre have "a = c" "prefix k' (replace old new cs)" by auto
      moreover have "set k' \<inter> set new = {}" using "2.prems"(3) k by auto
      ultimately have "prefix k' cs"
        using prefix_replace [OF "2.prems"(1)] by blast
      with \<open>a = c\<close> k False show False by simp
    qed
    with IH False "2.prems"(2) show ?thesis
      by (simp add: sublist_Cons_right)
  qed
qed

lemma fold_substitute_clean:
  assumes "\<forall>x \<in> set (ds @ xs). active x"
    and "\<forall>x \<in> set (ds @ xs). \<forall>y \<in> set (ds @ xs). set (fst y) \<inter> set (snd x) = {}"
    and "\<forall>d \<in> set ds. \<not> sublist (fst d) s"
  shows "\<forall>d \<in> set (ds @ xs). \<not> sublist (fst d) (fold substitute xs s)"
  using assms
proof (induction xs arbitrary: ds s)
  case Nil
  then show ?case by simp
next
  case (Cons x xs)
  obtain old new where x: "x = (old, new)" by (cases x)
  have act: "old \<noteq> []" "new \<noteq> []"
    using Cons.prems(1) x by (auto simp: active_def)
  have step: "substitute x s = replace old new s"
    using act x by (simp add: substitute_def)
  have "\<not> sublist (fst d) (substitute x s)" if d: "d \<in> set (ds @ [x])" for d
  proof (cases "d = x")
    case True
    have "set old \<inter> set new = {}"
      using Cons.prems(2) x by fastforce
    then show ?thesis
      using replace_removes [OF act(2,1)] True x step by simp
  next
    case False
    with d have "d \<in> set ds" by simp
    then have absent: "\<not> sublist (fst d) s" and "active d"
      and "set (fst d) \<inter> set new = {}"
      using Cons.prems x by fastforce+
    then show ?thesis
      using sublist_replace [OF act(2), of "fst d" old s] step
      by (auto simp: active_def)
  qed
  then have "\<forall>d \<in> set ((ds @ [x]) @ xs). \<not> sublist (fst d) (fold substitute xs (substitute x s))"
    using Cons.IH [of "ds @ [x]" "substitute x s"] Cons.prems(1,2) by simp
  then show ?case by simp
qed


section \<open>Properties of the formatter\<close>

lemma index_in_range: "0 \<le> i \<Longrightarrow> i < int (length xs) \<Longrightarrow> index xs i = Inr (xs ! nat i)"
  by (simp add: index_def Let_def)

lemma digit_words_below_100:
  assumes "0 \<le> n" "n < 100"
  shows "\<exists>w. digit_words n = Inr w"
proof (cases "n < 20")
  case True
  with assms show ?thesis
    by (subst digit_words.simps) (simp add: index_in_range ones_def)
next
  case False
  with assms have t: "index tens (n div 10) = Inr (tens ! nat (n div 10))"
    by (intro index_in_range) (simp_all add: tens_def)
  from assms have o: "index ones (n mod 10) = Inr (ones ! nat (n mod 10))"
    by (intro index_in_range) (simp_all add: ones_def)
  from False assms t o show ?thesis
    by (subst digit_words.simps) simp
qed

lemma digit_words_below_1000:
  assumes "0 \<le> n" "n < 1000"
  shows "\<exists>w. digit_words n = Inr w"
proof (cases "n < 100")
  case True
  with assms show ?thesis by (simp add: digit_words_below_100)
next
  case False
  with assms have h: "index ones (n div 100) = Inr (ones ! nat (n div 100))"
    by (intro index_in_range) (simp_all add: ones_def)
  obtain r where r: "digit_words (n mod 100) = Inr r"
    using digit_words_below_100 [of "n mod 100"] by auto
  from False h r show ?thesis
    by (subst digit_words.simps) simp
qed

lemma append_segment_zero: "append_segment 0 unit ws = Inr ws"
  by (simp add: append_segment_def)

lemma append_segment_below_1000:
  assumes "0 < x" "x < 1000"
  shows "\<exists>w. append_segment x unit ws = Inr (ws @ [w @ '' '' @ unit])"
  using digit_words_below_1000 [of x] assms by (auto simp: append_segment_def)

lemma length_join_last: "ws \<noteq> [] \<Longrightarrow> length (last ws) \<le> length (join sep ws)"
  by (induction sep ws rule: join.induct) auto


lemma below_10: "(k::nat) < 10 \<Longrightarrow> k = 0 \<or> k = 1 \<or> k = 2 \<or> k = 3 \<or> k = 4 \<or> k = 5 \<or> k = 6 \<or> k = 7 \<or> k = 8 \<or> k = 9"
  by arith

lemma below_32:
  "(k::nat) < 32 \<Longrightarrow> k = 0 \<or> k = 1 \<or> k = 2 \<or> k = 3 \<or> k = 4 \<or> k = 5 \<or> k = 6 \<or> k = 7 \<or> k = 8 \<or> k = 9 \<or> k = 10 \<or> k = 11 \<or> k = 12 \<or> k = 13 \<or> k = 14 \<or> k = 15 \<or> k = 16 \<or> k = 17 \<or> k = 18 \<or> k = 19 \<or> k = 20 \<or> k = 21 \<or> k = 22 \<or> k = 23 \<or> k = 24 \<or> k = 25 \<or> k = 26 \<or> k = 27 \<or> k = 28 \<or> k = 29 \<or> k = 30 \<or> k = 31"
  by arith

lemma digit_value_digit_char: "k < 10 \<Longrightarrow> digit_value (digit_char k) = k"
  by (drule below_10) (elim disjE; simp add: digit_value_def digit_char_def)

lemma isdigit_digit_char: "k < 10 \<Longrightarrow> isdigit (digit_char k)"
  by (drule below_10) (elim disjE; simp add: isdigit_def digit_char_def)

lemma str_nat_digit: "0 \<le> n \<Longrightarrow> n < 10 \<Longrightarrow> str_nat n = [digit_char (nat n)]"
  by (subst str_nat.simps) simp

lemma str_nat_step: "10 \<le> n \<Longrightarrow> str_nat n = str_nat (n div 10) @ [digit_char (nat (n mod 10))]"
  by (subst str_nat.simps) simp

lemma str_nat_1: "y < 10 \<Longrightarrow> str_nat (int y) = [digit_char y]"
  by (simp add: str_nat_digit)

lemma str_nat_2:
  assumes "10 \<le> y" "y < 100"
  shows "str_nat (int y) = [digit_char (y div 10), digit_char (y mod 10)]"
proof -
  have "str_nat (int y) = str_nat (int y div 10) @ [digit_char (nat (int y mod 10))]"
    using assms by (intro str_nat_step) simp
  also have "int y div 10 = int (y div 10)" by (simp add: zdiv_int)
  also have "nat (int y mod 10) = y mod 10" by (simp add: nat_mod_distrib)
  finally show ?thesis using assms by (simp add: str_nat_1)
qed

lemma str_nat_3:
  assumes "100 \<le> y" "y < 1000"
  shows "str_nat (int y) = [digit_char (y div 100), digit_char (y div 10 mod 10), digit_char (y mod 10)]"
proof -
  have "str_nat (int y) = str_nat (int y div 10) @ [digit_char (nat (int y mod 10))]"
    using assms by (intro str_nat_step) simp
  also have "int y div 10 = int (y div 10)" by (simp add: zdiv_int)
  also have "nat (int y mod 10) = y mod 10" by (simp add: nat_mod_distrib)
  finally have "str_nat (int y) = str_nat (int (y div 10)) @ [digit_char (y mod 10)]" .
  moreover have "y div 10 div 10 = y div 100"
    using div_mult2_eq [of y 10 10] by simp
  ultimately show ?thesis using assms by (simp add: str_nat_2)
qed

lemma str_nat_4:
  assumes "1000 \<le> y" "y < 10000"
  shows "str_nat (int y) = [digit_char (y div 1000), digit_char (y div 100 mod 10),
     digit_char (y div 10 mod 10), digit_char (y mod 10)]"
proof -
  have "str_nat (int y) = str_nat (int y div 10) @ [digit_char (nat (int y mod 10))]"
    using assms by (intro str_nat_step) simp
  also have "int y div 10 = int (y div 10)" by (simp add: zdiv_int)
  also have "nat (int y mod 10) = y mod 10" by (simp add: nat_mod_distrib)
  finally have "str_nat (int y) = str_nat (int (y div 10)) @ [digit_char (y mod 10)]" .
  moreover have "y div 10 div 100 = y div 1000" "y div 10 div 10 = y div 100"
    using div_mult2_eq [of y 10 100] div_mult2_eq [of y 10 10] by simp_all
  ultimately show ?thesis using assms by (simp add: str_nat_3)
qed

lemma year4_digits:
  assumes "y \<le> 9999"
  shows "year4 y = [digit_char (y div 1000), digit_char (y div 100 mod 10),
                    digit_char (y div 10 mod 10), digit_char (y mod 10)]"
proof -
  have zero: "digit_char 0 = CHR ''0''" by (simp add: digit_char_def)
  consider "y < 10" | "10 \<le> y" "y < 100" | "100 \<le> y" "y < 1000" | "1000 \<le> y"
    by linarith
  then show ?thesis
  proof cases
    case 1
    then show ?thesis
      by (simp add: year4_def str_nat_1 zero numeral_3_eq_3)
  next
    case 2
    then show ?thesis
      by (simp add: year4_def str_nat_2 zero numeral_2_eq_2)
  next
    case 3
    then show ?thesis 
      by (simp add: year4_def str_nat_3 zero)
  next
    case 4
    then show ?thesis using assms
      by (simp add: year4_def str_nat_4 zero)
  qed
qed

lemma year4_four_digits:
  assumes "1000 \<le> y" "y \<le> 9999"
  shows "year4 y = str_nat (int y)"
  using assms by (simp add: year4_def str_nat_4)

lemma take_year_iso_date:
  assumes "y \<le> 9999"
  shows "take 4 (iso_date y m d) = year4 y"
  using assms by (simp add: iso_date_def year4_digits)

lemma year_value:
  "1000 * (y div 1000) + 100 * (y div 100 mod 10) + 10 * (y div 10 mod 10) + y mod 10 = (y::nat)"
proof -
  have a: "y mod 1000 mod 100 = y mod 100" and b: "y mod 100 mod 10 = y mod 10"
    by (simp_all add: mod_mod_cancel)
  have 1: "y = 1000 * (y div 1000) + y mod 1000" by simp
  have 2: "y mod 1000 = 100 * (y mod 1000 div 100) + y mod 100"
    using a mult_div_mod_eq [of 100 "y mod 1000"] by simp
  have 3: "y mod 100 = 10 * (y mod 100 div 10) + y mod 10"
    using b mult_div_mod_eq [of 10 "y mod 100"] by simp
  have 4: "y mod 1000 div 100 = y div 100 mod 10"
    using mod_mult2_eq [of y 100 10] by simp
  have 5: "y mod 100 div 10 = y div 10 mod 10"
    using mod_mult2_eq [of y 10 10] by simp
  have "y = 1000 * (y div 1000) + y mod 1000" by (rule 1)
  also have "y mod 1000 = 100 * (y div 100 mod 10) + y mod 100"
    using 2 4 by (simp only:)
  also have "y mod 100 = 10 * (y div 10 mod 10) + y mod 10"
    using 3 5 by (simp only:)
  finally have "y = 1000 * (y div 1000)
      + (100 * (y div 100 mod 10) + (10 * (y div 10 mod 10) + y mod 10))" .
  from this [symmetric] show ?thesis by (simp only: add.assoc)
qed

lemma group_Y_year4:
  assumes "y \<le> 9999"
  shows "group_Y (year4 y @ rest) = [(y, rest)]"
proof -
  have d: "y div 1000 < 10" "y div 100 mod 10 < 10" "y div 10 mod 10 < 10" "y mod 10 < 10"
    using assms by auto
  show ?thesis
    using assms d year_value [of y]
    by (simp add: year4_digits group_Y_def isdigit_digit_char digit_value_digit_char)
qed

lemma group_m_two_digits:
  assumes "1 \<le> m" "m \<le> 12"
  shows "\<exists>more. group_m (two_digits m @ rest) = (m, rest) # more"
proof -
  have "m < 32" using assms by simp
  from below_32 [OF this] assms show ?thesis
    by (elim disjE; simp add: group_m_def two_digits_def digit_char_def digit_value_def)
qed

lemma group_d_two_digits:
  assumes "1 \<le> d" "d \<le> 31"
  shows "\<exists>more. group_d (two_digits d @ rest) = (d, rest) # more"
proof -
  have "d < 32" using assms by simp
  from below_32 [OF this] assms show ?thesis
    by (elim disjE;
        simp add: group_d_def two_digits_def digit_char_def digit_value_def isdigit_def)
qed

lemma days_in_month_le: "1 \<le> m \<Longrightarrow> m \<le> 12 \<Longrightarrow> days_in_month y m \<le> 31"
proof -
  assume "1 \<le> m" "m \<le> 12"
  then have "m < 32" by simp
  from below_32 [OF this] \<open>1 \<le> m\<close> \<open>m \<le> 12\<close> show ?thesis
    by (elim disjE; simp add: days_in_month_def)
qed

lemma regex_matches_iso:
  assumes "y \<le> 9999" "1 \<le> m" "m \<le> 12" "1 \<le> d" "d \<le> 31"
  shows "\<exists>more. regex_matches (iso_date y m d) = ((y, m, d), []) # more"
proof -
  obtain ms where ms: "group_m (two_digits m @ ''-'' @ two_digits d) = (m, ''-'' @ two_digits d) # ms"
    using group_m_two_digits [OF assms(2,3)] by blast
  obtain ds where ds: "group_d (two_digits d @ []) = (d, []) # ds"
    using group_d_two_digits [OF assms(4,5)] by blast
  have Y: "group_Y (iso_date y m d) = [(y, ''-'' @ two_digits m @ ''-'' @ two_digits d)]"
    unfolding iso_date_def using group_Y_year4 [OF assms(1)] by simp
  show ?thesis
    using ms ds by (simp add: regex_matches_def Y literal_def)
qed

lemma strptime_iso:
  assumes "1 \<le> y" "y \<le> 9999" "1 \<le> m" "m \<le> 12" "1 \<le> d" "d \<le> days_in_month y m"
  shows "strptime (iso_date y m d) = Inr (y, m, d)"
proof -
  have "d \<le> 31" using days_in_month_le [OF assms(3,4), of y] assms(6) by simp
  then obtain more where "regex_matches (iso_date y m d) = ((y, m, d), []) # more"
    using regex_matches_iso assms by blast
  then show ?thesis using assms by (simp add: strptime_def)
qed

section \<open>Properties of the map builder\<close>

lemma replacement_keys_nonempty:
  "\<forall>item \<in> set (replacement_items data n a b c d). fst item \<noteq> []"
  by (simp add: replacement_items_def Let_def)

lemma replacement_keys_distinct:
  "distinct (map fst (replacement_items data n a b c d))"
  by (simp add: replacement_items_def Let_def)

lemma prepare_replacements_items:
  assumes "prepare_replacements data = Inr m"
  shows "\<exists>n a b c d. m = replacement_items data n a b c d"
  using assms by (auto simp: prepare_replacements_def split: sum.splits) blast

lemma slash_key:
  "map_of (replacement_items data n a b c d) ''4/7/2025'' = Some (get (documentDate data) '''')"
  by (simp add: replacement_items_def Let_def)

lemma format_money_default: "format_money 100000000 = Inr ''$100,000,000.00''"
  by (simp add: format_money_def float_of_int_def str_nat.simps digit_char_def)

lemma format_money_default_1000: "format_money 100000000000 = Inr ''$100,000,000,000.00''"
  by (simp add: format_money_def float_of_int_def str_nat.simps digit_char_def)

lemma number_to_words_default: "number_to_words 100000000 = Inr ''ONE HUNDRED MILLION''"
  by (simp add: number_to_words_def append_segment_def digit_words.simps index_def ones_def
      tens_def)

lemma number_to_words_default_1000: "number_to_words 100000000000 = Inr ''ONE HUNDRED BILLION''"
  by (simp add: number_to_words_def append_segment_def digit_words.simps index_def ones_def
      tens_def)

lemma prepare_replacements_no_lien:
  assumes "lienAmount data = None"
  shows "prepare_replacements data = Inr (default_lien_items data)"
  using assms
  by (simp add: prepare_replacements_def get_def int_of_def format_money_default
      format_money_default_1000 number_to_words_default number_to_words_default_1000
      default_lien_items_def)

lemma int_of_sample: "int_of_str ''100000000'' = Inr 100000000"
  by (simp add: int_of_str_def int_space_def isdigit_def digit_value_def)

lemma prepare_replacements_sample:
  "prepare_replacements sample_data = Inr (default_lien_items sample_data)"
  by (simp add: prepare_replacements_def get_def int_of_def format_money_default int_of_sample
      format_money_default_1000 number_to_words_default number_to_words_default_1000
      sample_data_def default_lien_items_def)

lemma replacement_items_cong:
  assumes "same_strings x y"
  shows "replacement_items x n a b c d = replacement_items y n a b c d"
proof -
  have "get (firstName x) '''' = get (firstName y) ''''"
    "get (middleName x) '''' = get (middleName y) ''''"
    "get (lastName x) '''' = get (lastName y) ''''"
    "get (ssn x) '''' = get (ssn y) ''''"
    "get (documentDate x) '''' = get (documentDate y) ''''"
    "get (birthDate x) '''' = get (birthDate y) ''''"
    "get (streetAddress x) '''' = get (streetAddress y) ''''"
    "get (city x) '''' = get (city y) ''''"
    "get (state x) '''' = get (state y) ''''"
    "get (zipCode x) '''' = get (zipCode y) ''''"
    "get (county x) '''' = get (county y) ''''"
    "get (uccFilingNumber x) '''' = get (uccFilingNumber y) ''''"
    "get (uccFilingState x) '''' = get (uccFilingState y) ''''"
    "get (registeredMailNumber x) '''' = get (registeredMailNumber y) ''''"
    "get (dtcRoutingNumber x) '''' = get (dtcRoutingNumber y) ''''"
    "get (dtcAccountNumber x) '''' = get (dtcAccountNumber y) ''''"
    "get (birthCertNumber x) '''' = get (birthCertNumber y) ''''"
    using assms by (simp_all add: same_strings_def)
  then show ?thesis
    unfolding replacement_items_def by (simp only:)
qed

lemma prepare_replacements_cong:
  assumes "same_strings x y"
    and "get (lienAmount x) (LienInt 100000000) = get (lienAmount y) (LienInt 100000000)"
  shows "prepare_replacements x = prepare_replacements y"
  unfolding prepare_replacements_def
  by (simp only: assms(2) replacement_items_cong [OF assms(1)])

lemma skip_empty_values:
  assumes "\<forall>item \<in> set m. fst item \<noteq> []"
  shows "filter (\<lambda>item. snd item \<noteq> []) m = filter active m"
  using assms by (intro filter_cong [OF refl]) (auto simp: active_def)

lemma direct_keys:
  "map_of (replacement_items data n a b c d) ''493-74-8357'' = Some (get (ssn data) '''')"
  "map_of (replacement_items data n a b c d) ''6316 East 113th Avenue''
     = Some (get (streetAddress data) '''')"
  "map_of (replacement_items data n a b c d) ''Temple Terrace'' = Some (get (city data) '''')"
  "map_of (replacement_items data n a b c d) ''Florida'' = Some (get (state data) '''')"
  "map_of (replacement_items data n a b c d) ''33617'' = Some (get (zipCode data) '''')"
  "map_of (replacement_items data n a b c d) ''Hillsborough'' = Some (get (county data) '''')"
  "map_of (replacement_items data n a b c d) ''XXXXXXXXXXXXX''
     = Some (get (uccFilingNumber data) '''')"
  "map_of (replacement_items data n a b c d) ''New York'' = Some (get (uccFilingState data) '''')"
  "map_of (replacement_items data n a b c d) ''RF737860948US''
     = Some (get (registeredMailNumber data) '''')"
  "map_of (replacement_items data n a b c d) ''0810-0004-5''
     = Some (get (dtcRoutingNumber data) '''')"
  "map_of (replacement_items data n a b c d) ''053045139''
     = Some (get (dtcAccountNumber data) '''')"
  "map_of (replacement_items data n a b c d) ''124-62-071026''
     = Some (get (birthCertNumber data) '''')"
  by (simp_all add: replacement_items_def Let_def)

lemma wrapped_keys_empty:
  "map_of (replacement_items empty_customer n a b c d) ''c/o 6316 East 113th Avenue''
     = Some ''c/o ''"
  "map_of (replacement_items empty_customer n a b c d) ''THOMAS KALLEN CLAYCOMB'' = Some '' ''"
  "map_of (replacement_items empty_customer n a b c d) ''493-74-8357'' = Some ''''"
  "map_of (replacement_items empty_customer n a b c d) ''TKC020371ANP'' = Some ''XXX020371ANP''"
  by (simp_all add: replacement_items_def Let_def empty_customer_def get_def join.simps
      upper_def upper_char_def name_prefix_def)

lemma slash_key_sample:
  "map_of (replacement_items sample_data n a b c d) ''4/7/2025'' = Some ''2025-01-15''"
  by (simp add: slash_key sample_data_def get_def)

section \<open>Properties of the orchestrator\<close>

lemma replace_hit:
  "old \<noteq> [] \<Longrightarrow> replace old new (old @ s) = new @ replace old new s"
  by (cases old) simp_all

lemma replace_miss:
  "old \<noteq> [] \<Longrightarrow> \<not> prefix old (a # s) \<Longrightarrow> replace old new (a # s) = a # replace old new s"
  by simp

lemma prefix_overlap:
  assumes "c \<notin> set k" "\<not> prefix (c # k) p" "prefix (c # k) (p @ (c # k) @ s)"
  shows "p = []"
proof (rule ccontr)
  assume "p \<noteq> []"
  then obtain a p' where p: "p = a # p'" by (cases p) auto
  from assms(2,3) obtain us where us: "c # k = p @ us" "prefix us ((c # k) @ s)"
    using prefix_append [of "c # k" p "(c # k) @ s"] by blast
  from us(1) assms(2) have "us \<noteq> []" by auto
  then obtain u us' where u: "us = u # us'" by (cases us) auto
  with us(2) have "u = c" by simp
  from us(1) p u have "k = p' @ u # us'" by simp
  with \<open>u = c\<close> assms(1) show False by simp
qed

lemma replace_first_occurrence:
  assumes "c \<notin> set k" "\<not> sublist (c # k) p"
  shows "replace (c # k) new (p @ (c # k) @ s) = p @ new @ replace (c # k) new s"
  using assms(2)
proof (induction p)
  case Nil
  show ?case using replace_hit [of "c # k" new s] by simp
next
  case (Cons a p)
  then have no: "\<not> prefix (c # k) (a # p)" and rest: "\<not> sublist (c # k) p"
    by (simp_all add: sublist_Cons_right)
  have np: "\<not> prefix (c # k) (a # p @ c # k @ s)"
    using prefix_overlap [OF assms(1) no, of s] by fastforce
  have "replace (c # k) new (a # p @ c # k @ s) = a # replace (c # k) new (p @ c # k @ s)"
    by (rule replace_miss) (use np in simp_all)
  with Cons.IH [OF rest] show ?case by (simp del: replace.simps)
qed

lemma output_name_TKC:
  assumes "\<not> sublist ''_TKC'' p" "\<not> sublist ''_TKC'' q"
    and "\<not> sublist ''_JAD'' (p @ ''_'' @ get (lastName data) ''Customer'' @ q)"
  shows "output_name data (p @ ''_TKC'' @ q) = p @ ''_'' @ get (lastName data) ''Customer'' @ q"
proof -
  let ?r = "''_'' @ get (lastName data) ''Customer''"
  have "replace ''_TKC'' ?r (p @ ''_TKC'' @ q) = p @ ?r @ replace ''_TKC'' ?r q"
    using assms(1) by (intro replace_first_occurrence) simp_all
  also have "replace ''_TKC'' ?r q = q"
    using assms(2) by (rule replace_absent)
  finally have "replace ''_TKC'' ?r (p @ ''_TKC'' @ q) = p @ ?r @ q" .
  moreover have "replace ''_JAD'' ?r (p @ ?r @ q) = p @ ?r @ q"
    using assms(3) by (intro replace_absent) simp
  ultimately show ?thesis
    by (simp add: output_name_def Let_def)
qed

lemma output_name_JAD:
  assumes "\<not> sublist ''_JAD'' p" "\<not> sublist ''_JAD'' q"
    and "\<not> sublist ''_TKC'' (p @ ''_JAD'' @ q)"
  shows "output_name data (p @ ''_JAD'' @ q) = p @ ''_'' @ get (lastName data) ''Customer'' @ q"
proof -
  let ?r = "''_'' @ get (lastName data) ''Customer''"
  have "replace ''_TKC'' ?r (p @ ''_JAD'' @ q) = p @ ''_JAD'' @ q"
    using assms(3) by (rule replace_absent)
  moreover have "replace ''_JAD'' ?r (p @ ''_JAD'' @ q) = p @ ?r @ replace ''_JAD'' ?r q"
    using assms(1) by (intro replace_first_occurrence) simp_all
  moreover have "replace ''_JAD'' ?r q = q"
    using assms(2) by (rule replace_absent)
  ultimately show ?thesis
    by (simp add: output_name_def Let_def)
qed

lemma output_name_absent:
  "lastName data = None \<Longrightarrow>
     output_name data t = output_name (data\<lparr>lastName := Some ''Customer''\<rparr>) t"
  by (simp add: output_name_def get_def)

lemma output_name_examples:
  "output_name empty_customer ''01_Agreement_TKC.docx'' = ''01_Agreement_Customer.docx''"
  "output_name empty_customer ''02_Affidavit_JAD.docx'' = ''02_Affidavit_Customer.docx''"
  "output_name sample_data ''01_Agreement_TKC.docx'' = ''01_Agreement_Smith.docx''"
  "output_name sample_data ''02_Affidavit_JAD.docx'' = ''02_Affidavit_Smith.docx''"
  "output_name (empty_customer\<lparr>lastName := Some ''''\<rparr>) ''01_Agreement_TKC.docx''
     = ''01_Agreement_.docx''"
  by (simp_all add: output_name_def get_def empty_customer_def sample_data_def)

lemma process_template_count:
  assumes "process_template sys td cd od repl t (g, e, w) = (g', e', w')"
  shows "length g' + length e' = Suc (length g + length e)"
  using assms by (auto simp: process_template_def Let_def split: prod.splits option.splits)

lemma fold_process_template_count:
  assumes "fold (process_template sys td cd od repl) ts (g, e, w) = (g', e', w')"
  shows "length g' + length e' = length g + length e + length ts"
  using assms
proof (induction ts arbitrary: g e w)
  case Nil
  then show ?case by simp
next
  case (Cons t ts)
  obtain g1 e1 w1 where step: "process_template sys td cd od repl t (g, e, w) = (g1, e1, w1)"
    by (cases "process_template sys td cd od repl t (g, e, w)") auto
  with Cons.prems have "fold (process_template sys td cd od repl) ts (g1, e1, w1) = (g', e', w')"
    by simp
  then have "length g' + length e' = length g1 + length e1 + length ts"
    by (rule Cons.IH)
  with process_template_count [OF step] show ?case by simp
qed

lemma fold_process_template_lists:
  assumes "\<forall>w. outcome_of sys td cd od repl w = outcome"
    and "fold (process_template sys td cd od repl) ts (g, e, w) = (g', e', w')"
  shows "g' = g @ map (\<lambda>t. path_join od (output_name cd t)) (filter (\<lambda>t. outcome t = None) ts)
       \<and> e' = e @ map (\<lambda>t. (t, the (outcome t))) (filter (\<lambda>t. outcome t \<noteq> None) ts)"
  using assms(2)
proof (induction ts arbitrary: g e w)
  case Nil
  then show ?case by simp
next
  case (Cons t ts)
  have out: "fst (process_docx_xml sys (path_join td t) repl
                    (path_join od (output_name cd t)) w) = outcome t"
    using assms(1) by (simp add: outcome_of_def fun_eq_iff)
  obtain r w1 where p: "process_docx_xml sys (path_join td t) repl
                    (path_join od (output_name cd t)) w = (r, w1)"
    by (cases "process_docx_xml sys (path_join td t) repl (path_join od (output_name cd t)) w")
  with out have r: "r = outcome t" by simp
  show ?case
  proof (cases "outcome t")
    case None
    with p r have "process_template sys td cd od repl t (g, e, w)
        = (g @ [path_join od (output_name cd t)], e, w1)"
      by (simp add: process_template_def Let_def)
    with Cons.prems have "fold (process_template sys td cd od repl) ts
        (g @ [path_join od (output_name cd t)], e, w1) = (g', e', w')" by simp
    from Cons.IH [OF this] None show ?thesis by simp
  next
    case (Some msg)
    with p r have "process_template sys td cd od repl t (g, e, w)
        = (g, e @ [(t, msg)], w1)"
      by (simp add: process_template_def Let_def)
    with Cons.prems have "fold (process_template sys td cd od repl) ts
        (g, e @ [(t, msg)], w1) = (g', e', w')" by simp
    from Cons.IH [OF this] Some show ?thesis by simp
  qed
qed

lemma sorted_templates:
  "sort (filter (suffix ''.docx'') five_templates) =
     [''01_Agreement_TKC.docx'', ''02_Affidavit_JAD.docx'', ''03_Notice_TKC.docx'',
      ''04_Act_TKC.docx'', ''05_Power.docx'']"
  by (simp add: five_templates_def suffix_def)

section \<open>The claims about the substitution engine\<close>

text \<open>
  Claim C1. For every replacement map and every text, \<^verbatim>\<open>replace_text_in_file\<close>
  applies the items of the map one after the other in an order in which key lengths never
  increase: the order is a rearrangement of the map's items, a longer key always comes
  before a shorter one, and keys of equal length keep the order of the map. So the map
  \<open>{"AB": "X", "ABC": "Y"}\<close> turns the text \<open>"ABC"\<close> into \<open>"Y"\<close>, whichever of
  the two entries the map lists first.
\<close>

theorem longest_key_first:
  "replace_text_in_file t m = fold substitute (sorted_items m) t
   \<and> mset (sorted_items m) = mset m
   \<and> sorted_wrt (\<lambda>a b. length (fst b) \<le> length (fst a)) (sorted_items m)
   \<and> filter (\<lambda>x. length (fst x) = n) (sorted_items m) = filter (\<lambda>x. length (fst x) = n) m
   \<and> replace_text_in_file ''ABC'' [(''AB'', ''X''), (''ABC'', ''Y'')] = ''Y''
   \<and> replace_text_in_file ''ABC'' [(''ABC'', ''Y''), (''AB'', ''X'')] = ''Y''"
proof -
  have stable: "filter (\<lambda>x. length (fst x) = n) (sorted_items m)
      = filter (\<lambda>x. length (fst x) = n) m"
    using sort_key_stable [of "\<lambda>x. - int (length (fst x))" "- int n" m]
    by (simp add: sorted_items_def)
  have ex1: "replace_text_in_file ''ABC'' [(''AB'', ''X''), (''ABC'', ''Y'')] = ''Y''"
    by (simp add: replace_text_in_file_def sorted_items_def substitute_def)
  have ex2: "replace_text_in_file ''ABC'' [(''ABC'', ''Y''), (''AB'', ''X'')] = ''Y''"
    by (simp add: replace_text_in_file_def sorted_items_def substitute_def)
  show ?thesis
    using stable ex1 ex2
    by (simp add: replace_text_in_file_def mset_sorted_items sorted_items_descending)
qed

theorem longest_key_first_witness:
  "sorted_items [(''493748357'', ''1''), (''**493748357**'', ''2''), (''#493748357'', ''3'')]
     = [(''**493748357**'', ''2''), (''#493748357'', ''3''), (''493748357'', ''1'')]
   \<and> replace_text_in_file ''**493748357**''
        [(''493748357'', ''1''), (''**493748357**'', ''2''), (''#493748357'', ''3'')] = ''2''"
proof -
  have s: "sorted_items [(''493748357'', ''1''), (''**493748357**'', ''2''), (''#493748357'', ''3'')]
     = [(''**493748357**'', ''2''), (''#493748357'', ''3''), (''493748357'', ''1'')]"
    by (simp add: sorted_items_def)
  show ?thesis
    using longest_key_first [of "''**493748357**''"
        "[(''493748357'', ''1''), (''**493748357**'', ''2''), (''#493748357'', ''3'')]" 0]
    by (simp add: s substitute_def)
qed

text \<open>
  Claim C4, as the specification states it: for every map in which no replacement value
  equals another key, applying the map a second time changes nothing. The code does not
  do that. In the map \<open>{"b": "a", "ac": "z"}\<close> no value equals a key, the text
  \<open>"bc"\<close> becomes \<open>"ac"\<close>, and a second application turns \<open>"ac"\<close> into \<open>"z"\<close>:
  the first replacement joins its value to the text around it and the longer key appears.
\<close>

theorem not_idempotent:
  "''a'' \<noteq> ''b'' \<and> ''a'' \<noteq> ''ac'' \<and> ''z'' \<noteq> ''b'' \<and> ''z'' \<noteq> ''ac''
   \<and> replace_text_in_file ''bc'' [(''b'', ''a''), (''ac'', ''z'')] = ''ac''
   \<and> replace_text_in_file (replace_text_in_file ''bc'' [(''b'', ''a''), (''ac'', ''z'')])
        [(''b'', ''a''), (''ac'', ''z'')] = ''z''
   \<and> replace_text_in_file (replace_text_in_file ''bc'' [(''b'', ''a''), (''ac'', ''z'')])
        [(''b'', ''a''), (''ac'', ''z'')]
     \<noteq> replace_text_in_file ''bc'' [(''b'', ''a''), (''ac'', ''z'')]"
  by (simp add: replace_text_in_file_def sorted_items_def substitute_def)

text \<open>
  Claim C4, amended. For every replacement map in which no character of a replacement
  value occurs in a key (over the entries with a non-empty key and a non-empty value, the
  others being skipped), and for every text, \<^verbatim>\<open>replace_text_in_file\<close> is idempotent:
  after one application no key of the map occurs in the text, and applying the same map
  again changes nothing.
\<close>

theorem idempotent_fresh_values:
  assumes "fresh_values m"
  shows "replace_text_in_file (replace_text_in_file t m) m = replace_text_in_file t m"
proof -
  let ?xs = "filter active (sorted_items m)"
  let ?r = "fold substitute ?xs t"
  have r: "replace_text_in_file t m = ?r"
    by (simp add: replace_text_in_file_def fold_substitute_filter)
  have "\<forall>d \<in> set ([] @ ?xs). \<not> sublist (fst d) ?r"
  proof (rule fold_substitute_clean)
    show "\<forall>x \<in> set ([] @ ?xs). active x" by simp
    show "\<forall>x \<in> set ([] @ ?xs). \<forall>y \<in> set ([] @ ?xs). set (fst y) \<inter> set (snd x) = {}"
      using assms by (auto simp: fresh_values_def set_sorted_items)
    show "\<forall>d \<in> set []. \<not> sublist (fst d) t" by simp
  qed
  then have "\<forall>item \<in> set (sorted_items m). \<not> active item \<or> \<not> sublist (fst item) ?r"
    by auto
  then have "fold substitute (sorted_items m) ?r = ?r"
    by (rule fold_substitute_id)
  then show ?thesis
    by (simp add: r) (simp add: replace_text_in_file_def)
qed

theorem idempotent_fresh_values_witness:
  "fresh_values [(''AB'', ''x''), (''ABC'', ''y''), (''C'', '''')]
   \<and> replace_text_in_file ''ABCAB'' [(''AB'', ''x''), (''ABC'', ''y''), (''C'', '''')] = ''yx''
   \<and> replace_text_in_file ''yx'' [(''AB'', ''x''), (''ABC'', ''y''), (''C'', '''')] = ''yx''"
proof -
  have f: "fresh_values [(''AB'', ''x''), (''ABC'', ''y''), (''C'', '''')]"
    by (simp add: fresh_values_def active_def)
  have "replace_text_in_file ''ABCAB'' [(''AB'', ''x''), (''ABC'', ''y''), (''C'', '''')] = ''yx''"
    by (simp add: replace_text_in_file_def sorted_items_def substitute_def)
  with idempotent_fresh_values [OF f, of "''ABCAB''"] f show ?thesis by simp
qed

text \<open>
  Claim C7. \<^verbatim>\<open>replace_text_in_file\<close> is a total function of the text and the map: it
  returns a text for every input and raises nothing. An entry whose key or whose value is
  empty is skipped: the result is the one of the map without these entries. An entry
  whose key does not occur in the text it is applied to (the input as the entries before
  it have left it) has no effect: the result is the one of the other entries alone. So
  when every entry of the map has an empty key, an empty value or a key that does not
  occur in the input, the output is the input.
\<close>

theorem engine_skips_empty_and_absent:
  "replace_text_in_file t m
     = replace_text_in_file t (filter (\<lambda>item. fst item \<noteq> [] \<and> snd item \<noteq> []) m)
   \<and> (fst item = [] \<or> snd item = [] \<or> \<not> sublist (fst item) s \<longrightarrow> substitute item s = s)
   \<and> (sorted_items m = before @ item # after
        \<and> (fst item = [] \<or> snd item = [] \<or> \<not> sublist (fst item) (fold substitute before t))
      \<longrightarrow> replace_text_in_file t m = fold substitute (before @ after) t)
   \<and> ((\<forall>item \<in> set m. fst item = [] \<or> snd item = [] \<or> \<not> sublist (fst item) t)
        \<longrightarrow> replace_text_in_file t m = t)"
proof -
  have "(\<lambda>item::'a list \<times> 'a list. fst item \<noteq> [] \<and> snd item \<noteq> []) = active"
    by (simp add: fun_eq_iff active_def)
  then have skip: "replace_text_in_file t m
      = replace_text_in_file t (filter (\<lambda>item. fst item \<noteq> [] \<and> snd item \<noteq> []) m)"
    by (simp add: replace_text_in_file_active)
  have step: "fst item = [] \<or> snd item = [] \<or> \<not> sublist (fst item) s
      \<longrightarrow> substitute item s = s" for s
    using substitute_inactive [of item s] substitute_absent [of item s]
    by (auto simp: active_def)
  have turn: "sorted_items m = before @ item # after
        \<and> (fst item = [] \<or> snd item = [] \<or> \<not> sublist (fst item) (fold substitute before t))
      \<longrightarrow> replace_text_in_file t m = fold substitute (before @ after) t"
    using step [of "fold substitute before t"] by (auto simp: replace_text_in_file_def)
  have "replace_text_in_file t m = t"
    if "\<forall>item \<in> set m. fst item = [] \<or> snd item = [] \<or> \<not> sublist (fst item) t"
  proof -
    from that have "\<forall>item \<in> set (sorted_items m). \<not> active item \<or> \<not> sublist (fst item) t"
      by (auto simp: set_sorted_items active_def)
    then show ?thesis
      unfolding replace_text_in_file_def by (rule fold_substitute_id)
  qed
  with skip step [of s] turn show ?thesis by blast
qed

theorem engine_skips_empty_and_absent_witness:
  "replace_text_in_file ''AB and CD'' [(''AB'', ''''), ('''', ''x''), (''EF'', ''y'')] = ''AB and CD''
   \<and> replace_text_in_file ''AB and CD'' [(''AB'', ''''), ('''', ''x''), (''CD'', ''y'')]
     = replace_text_in_file ''AB and CD'' [(''CD'', ''y'')]
   \<and> substitute (''EF'', ''y'') ''AB and CD'' = ''AB and CD''
   \<and> sorted_items [(''CD'', ''y''), (''EF'', ''z'')] = [(''CD'', ''y'')] @ (''EF'', ''z'') # []
   \<and> replace_text_in_file ''AB and CD'' [(''CD'', ''y''), (''EF'', ''z'')]
     = fold substitute ([(''CD'', ''y'')] @ []) ''AB and CD''"
proof -
  let ?t = "''AB and CD''"
  let ?item = "(''EF'', ''y'')"
  have absent: "\<not> sublist ''EF'' ?t"
    by (simp add: sublist_Cons_right)
  then have all: "\<forall>item \<in> set [(''AB'', ''''), ('''', ''x''), (''EF'', ''y'')].
      fst item = [] \<or> snd item = [] \<or> \<not> sublist (fst item) ?t"
    by simp
  have 1: "replace_text_in_file ?t [(''AB'', ''''), ('''', ''x''), (''EF'', ''y'')] = ?t"
    using engine_skips_empty_and_absent [of ?t
        "[(''AB'', ''''), ('''', ''x''), (''EF'', ''y'')]" ?item ?t "[]" "[]"]
      all
    by blast
  have 2: "replace_text_in_file ?t [(''AB'', ''''), ('''', ''x''), (''CD'', ''y'')]
     = replace_text_in_file ?t [(''CD'', ''y'')]"
    using engine_skips_empty_and_absent [of ?t
        "[(''AB'', ''''), ('''', ''x''), (''CD'', ''y'')]" ?item ?t "[]" "[]"]
    by simp
  have 3: "substitute ?item ?t = ?t"
    using engine_skips_empty_and_absent [of ?t
        "[(''AB'', ''''), ('''', ''x''), (''EF'', ''y'')]" ?item ?t "[]" "[]"]
      absent
    by simp
  have order: "sorted_items [(''CD'', ''y''), (''EF'', ''z'')]
      = [(''CD'', ''y'')] @ (''EF'', ''z'') # []"
    by (simp add: sorted_items_def)
  have "\<not> sublist ''EF'' (fold substitute [(''CD'', ''y'')] ?t)"
    by (simp add: substitute_def sublist_Cons_right)
  then have 4: "replace_text_in_file ?t [(''CD'', ''y''), (''EF'', ''z'')]
     = fold substitute ([(''CD'', ''y'')] @ []) ?t"
    using engine_skips_empty_and_absent [of ?t "[(''CD'', ''y''), (''EF'', ''z'')]"
        "(''EF'', ''z'')" ?t "[(''CD'', ''y'')]" "[]"] order
    by simp
  from 1 2 3 order 4 show ?thesis by blast
qed


section \<open>The claims about the formatter\<close>

text \<open>
  Claim C3, as the specification states it: for \<open>n\<close> from 0 to 999,999,999,999 the
  result of \<^verbatim>\<open>number_to_words\<close> is non-empty if and only if \<open>n \<ge> 1000\<close>. The code
  returns \<open>"ZERO"\<close> below 1000, and that is not the empty string: at \<open>n = 0\<close> the
  result is non-empty although \<open>0 < 1000\<close>.
\<close>

theorem number_to_words_zero_nonempty:
  "number_to_words 0 = Inr ''ZERO'' \<and> ''ZERO'' \<noteq> '''' \<and> \<not> (1000 \<le> (0::int))"
  by (simp add: number_to_words_def append_segment_def)

text \<open>
  Claim C3, amended. For every integer \<open>n\<close> from 0 to 999,999,999,999,
  \<^verbatim>\<open>number_to_words\<close> raises nothing and returns a non-empty string, and this string
  is \<open>"ZERO"\<close> if and only if \<open>n < 1000\<close>; in particular \<^verbatim>\<open>number_to_words(0)\<close> is
  \<open>"ZERO"\<close>.
\<close>

theorem number_to_words_range:
  assumes "0 \<le> n" "n \<le> 999999999999"
  shows "(\<exists>s. number_to_words n = Inr s \<and> s \<noteq> [] \<and> (s = ''ZERO'' \<longleftrightarrow> n < 1000))
         \<and> number_to_words 0 = Inr ''ZERO''"
proof -
  define b where "b = n div 1000000000"
  define m where "m = (n mod 1000000000) div 1000000"
  define t where "t = (n mod 1000000) div 1000"
  have b: "0 \<le> b" "b < 1000" using assms by (auto simp: b_def)
  have m: "0 \<le> m" "m < 1000" by (auto simp: m_def)
  have t: "0 \<le> t" "t < 1000" by (auto simp: t_def)
  have zero: "b = 0 \<and> m = 0 \<and> t = 0 \<longleftrightarrow> n < 1000"
    using assms unfolding b_def m_def t_def by auto
  obtain w1 where w1: "append_segment b ''BILLION'' [] = Inr w1"
    and l1: "w1 = [] \<longleftrightarrow> b = 0" and k1: "w1 \<noteq> [] \<longrightarrow> 8 \<le> length (last w1)"
    using append_segment_below_1000 [of b "''BILLION''" "[]"] b
    by (cases "b = 0") (auto simp: append_segment_zero)
  obtain w2 where w2: "append_segment m ''MILLION'' w1 = Inr w2"
    and l2: "w2 = [] \<longleftrightarrow> b = 0 \<and> m = 0" and k2: "w2 \<noteq> [] \<longrightarrow> 8 \<le> length (last w2)"
    using append_segment_below_1000 [of m "''MILLION''" w1] m l1 k1
    by (cases "m = 0") (auto simp: append_segment_zero)
  obtain w3 where w3: "append_segment t ''THOUSAND'' w2 = Inr w3"
    and l3: "w3 = [] \<longleftrightarrow> b = 0 \<and> m = 0 \<and> t = 0" and k3: "w3 \<noteq> [] \<longrightarrow> 8 \<le> length (last w3)"
    using append_segment_below_1000 [of t "''THOUSAND''" w2] t l2 k2
    by (cases "t = 0") (auto simp: append_segment_zero)
  have res: "number_to_words n = Inr (if w3 \<noteq> [] then join '' '' w3 else ''ZERO'')"
    using w1 w2 w3 by (simp add: number_to_words_def b_def m_def t_def)
  have zero_words: "number_to_words 0 = Inr ''ZERO''"
    by (simp add: number_to_words_def append_segment_def)
  show ?thesis
  proof (cases "w3 = []")
    case True
    with res l3 zero zero_words show ?thesis by simp
  next
    case False
    then have "8 \<le> length (join '' '' w3)"
      using k3 length_join_last [of w3 "'' ''"] by simp
    then have "join '' '' w3 \<noteq> []" "join '' '' w3 \<noteq> ''ZERO''" by auto
    with False res l3 zero zero_words show ?thesis by simp
  qed
qed

theorem number_to_words_range_witness:
  "(0::int) \<le> 100000000 \<and> (100000000::int) \<le> 999999999999
   \<and> number_to_words 100000000 = Inr ''ONE HUNDRED MILLION''
   \<and> ''ONE HUNDRED MILLION'' \<noteq> ''ZERO'' \<and> \<not> ((100000000::int) < 1000)"
proof -
  have "\<exists>s. number_to_words 100000000 = Inr s \<and> s \<noteq> []
      \<and> (s = ''ZERO'' \<longleftrightarrow> (100000000::int) < 1000)"
    using number_to_words_range [of 100000000] by simp
  then show ?thesis
    by (simp add: number_to_words_default)
qed

text \<open>
  Claim C5. \<^verbatim>\<open>format_date_written\<close> is a total function from strings to strings, so
  it raises nothing. Whenever \<^verbatim>\<open>strptime\<close> reads the input as the date \<open>(y, m, d)\<close>
  the result is the month name, a space, the day without padding, its ordinal suffix, a
  comma, a space and the year as a decimal number; every date of the calendar written as
  \<^verbatim>\<open>YYYY-MM-DD\<close> is read so, and from the year 1000 on the year of the result is the
  four digits of the input. The suffix is \<open>"th"\<close> for the days 11 to 13 and otherwise
  follows the last digit: 1 gives \<open>"st"\<close>, 2 gives \<open>"nd"\<close>, 3 gives \<open>"rd"\<close>, the
  others \<open>"th"\<close>. The empty string gives the empty string, and an input that
  \<^verbatim>\<open>strptime\<close> rejects is returned unchanged. The five examples of the specification
  hold. A year below 1000 loses its leading zeros: \<^verbatim>\<open>0999-01-01\<close> gives
  \<open>"January 1st, 999"\<close>.
\<close>

theorem format_date_written_spec:
  "(strptime s = Inr (y, m, d) \<longrightarrow>
      format_date_written s
        = month_name m @ '' '' @ str_nat (int d) @ ordinal_suffix d @ '', '' @ str_nat (int y))
   \<and> (1 \<le> y \<and> y \<le> 9999 \<and> 1 \<le> m \<and> m \<le> 12 \<and> 1 \<le> d \<and> d \<le> days_in_month y m \<longrightarrow>
        strptime (iso_date y m d) = Inr (y, m, d))
   \<and> (1000 \<le> y \<and> y \<le> 9999 \<and> 1 \<le> m \<and> m \<le> 12 \<and> 1 \<le> d \<and> d \<le> days_in_month y m \<longrightarrow>
        format_date_written (iso_date y m d)
          = month_name m @ '' '' @ str_nat (int d) @ ordinal_suffix d @ '', ''
            @ take 4 (iso_date y m d))
   \<and> ordinal_suffix d =
       (if 11 \<le> d \<and> d \<le> 13 then ''th''
        else if d mod 10 = 1 then ''st''
        else if d mod 10 = 2 then ''nd''
        else if d mod 10 = 3 then ''rd''
        else ''th'')
   \<and> format_date_written '''' = ''''
   \<and> (strptime s = Inl e \<longrightarrow> format_date_written s = s)
   \<and> format_date_written ''1985-06-15'' = ''June 15th, 1985''
   \<and> format_date_written ''2025-01-01'' = ''January 1st, 2025''
   \<and> format_date_written ''2025-01-11'' = ''January 11th, 2025''
   \<and> format_date_written ''not-a-date'' = ''not-a-date''
   \<and> format_date_written ''0999-01-01'' = ''January 1st, 999''"
proof -
  have parsed: "strptime t = Inr (y', m', d') \<longrightarrow>
      format_date_written t
        = month_name m' @ '' '' @ str_nat (int d') @ ordinal_suffix d' @ '', ''
          @ str_nat (int y')" for t y' m' d'
    by (auto simp: format_date_written_def strptime_def regex_matches_def group_Y_def)
  have iso: "1 \<le> y \<and> y \<le> 9999 \<and> 1 \<le> m \<and> m \<le> 12 \<and> 1 \<le> d \<and> d \<le> days_in_month y m \<longrightarrow>
        strptime (iso_date y m d) = Inr (y, m, d)"
    using strptime_iso by blast
  have four: "1000 \<le> y \<and> y \<le> 9999 \<and> 1 \<le> m \<and> m \<le> 12 \<and> 1 \<le> d \<and> d \<le> days_in_month y m \<longrightarrow>
        format_date_written (iso_date y m d)
          = month_name m @ '' '' @ str_nat (int d) @ ordinal_suffix d @ '', ''
            @ take 4 (iso_date y m d)"
  proof
    assume a: "1000 \<le> y \<and> y \<le> 9999 \<and> 1 \<le> m \<and> m \<le> 12 \<and> 1 \<le> d \<and> d \<le> days_in_month y m"
    then have "strptime (iso_date y m d) = Inr (y, m, d)"
      using strptime_iso [of y m d] by simp
    then have "format_date_written (iso_date y m d)
        = month_name m @ '' '' @ str_nat (int d) @ ordinal_suffix d @ '', '' @ str_nat (int y)"
      using parsed by blast
    moreover have "take 4 (iso_date y m d) = str_nat (int y)"
      using a by (simp add: take_year_iso_date year4_four_digits)
    ultimately show "format_date_written (iso_date y m d)
          = month_name m @ '' '' @ str_nat (int d) @ ordinal_suffix d @ '', ''
            @ take 4 (iso_date y m d)"
      by simp
  qed
  have suffix_rule: "ordinal_suffix d =
       (if 11 \<le> d \<and> d \<le> 13 then ''th''
        else if d mod 10 = 1 then ''st''
        else if d mod 10 = 2 then ''nd''
        else if d mod 10 = 3 then ''rd''
        else ''th'')"
    by (auto simp: ordinal_suffix_def)
  have empty: "format_date_written '''' = ''''"
    by (simp add: format_date_written_def)
  have rejected: "strptime s = Inl e \<longrightarrow> format_date_written s = s"
    by (simp add: format_date_written_def)
  have ex1: "format_date_written ''1985-06-15'' = ''June 15th, 1985''"
    by (simp add: format_date_written_def strptime_def regex_matches_def group_Y_def group_m_def
        group_d_def literal_def isdigit_def digit_value_def days_in_month_def is_leap_def
        month_name_def ordinal_suffix_def str_nat.simps digit_char_def)
  have ex2: "format_date_written ''2025-01-01'' = ''January 1st, 2025''"
    by (simp add: format_date_written_def strptime_def regex_matches_def group_Y_def group_m_def
        group_d_def literal_def isdigit_def digit_value_def days_in_month_def is_leap_def
        month_name_def ordinal_suffix_def str_nat.simps digit_char_def)
  have ex3: "format_date_written ''2025-01-11'' = ''January 11th, 2025''"
    by (simp add: format_date_written_def strptime_def regex_matches_def group_Y_def group_m_def
        group_d_def literal_def isdigit_def digit_value_def days_in_month_def is_leap_def
        month_name_def ordinal_suffix_def str_nat.simps digit_char_def)
  have ex4: "format_date_written ''not-a-date'' = ''not-a-date''"
    by (simp add: format_date_written_def strptime_def regex_matches_def group_Y_def isdigit_def)
  have ex5: "format_date_written ''0999-01-01'' = ''January 1st, 999''"
    by (simp add: format_date_written_def strptime_def regex_matches_def group_Y_def group_m_def
        group_d_def literal_def isdigit_def digit_value_def days_in_month_def is_leap_def
        month_name_def ordinal_suffix_def str_nat.simps digit_char_def)
  from parsed [of s y m d] iso four suffix_rule empty rejected ex1 ex2 ex3 ex4 ex5
  show ?thesis
    by blast
qed

theorem format_date_written_spec_witness:
  "strptime (iso_date 2024 2 29) = Inr (2024, 2, 29)
   \<and> iso_date 2024 2 29 = ''2024-02-29''
   \<and> format_date_written ''2024-02-29'' = ''February 29th, 2024''
   \<and> strptime ''2025-02-29'' = Inl ValueError
   \<and> format_date_written ''2025-02-29'' = ''2025-02-29''"
proof -
  have valid: "(1::nat) \<le> 2024 \<and> (2024::nat) \<le> 9999 \<and> (1::nat) \<le> 2 \<and> (2::nat) \<le> 12
      \<and> (1::nat) \<le> 29 \<and> 29 \<le> days_in_month 2024 2"
    by (simp add: days_in_month_def is_leap_def)
  have valid4: "(1000::nat) \<le> 2024 \<and> (2024::nat) \<le> 9999 \<and> (1::nat) \<le> 2 \<and> (2::nat) \<le> 12
      \<and> (1::nat) \<le> 29 \<and> 29 \<le> days_in_month 2024 2"
    by (simp add: days_in_month_def is_leap_def)
  have shape: "iso_date 2024 2 29 = ''2024-02-29''"
    by (simp add: iso_date_def two_digits_def year4_def str_nat.simps digit_char_def)
  have rejected: "strptime ''2025-02-29'' = Inl ValueError"
    by (simp add: strptime_def regex_matches_def group_Y_def group_m_def group_d_def
        literal_def isdigit_def digit_value_def days_in_month_def is_leap_def)
  have read: "strptime (iso_date 2024 2 29) = Inr (2024, 2, 29)"
    using format_date_written_spec [of "iso_date 2024 2 29" 2024 2 29 ValueError] valid
    by blast
  then have parsed: "format_date_written (iso_date 2024 2 29)
      = month_name 2 @ '' '' @ str_nat (int 29) @ ordinal_suffix 29 @ '', ''
        @ str_nat (int 2024)"
    using format_date_written_spec [of "iso_date 2024 2 29" 2024 2 29 ValueError] by blast
  have "format_date_written (iso_date 2024 2 29)
      = month_name 2 @ '' '' @ str_nat (int 29) @ ordinal_suffix 29 @ '', ''
        @ take 4 (iso_date 2024 2 29)"
    using format_date_written_spec [of "iso_date 2024 2 29" 2024 2 29 ValueError] valid4
    by blast
  then have written: "format_date_written ''2024-02-29'' = ''February 29th, 2024''"
    by (simp add: shape month_name_def ordinal_suffix_def str_nat.simps digit_char_def)
  have "format_date_written ''2025-02-29'' = ''2025-02-29''"
    using format_date_written_spec [of "''2025-02-29''" 2024 2 29 ValueError] rejected
    by blast
  with read shape written rejected show ?thesis by simp
qed


section \<open>The claims about the map builder\<close>

text \<open>
  Claim C2, as the specification states it: the map that \<^verbatim>\<open>prepare_replacements\<close>
  returns has no entry with an empty value. The code returns the dictionary literal as it
  is and filters nothing: for the customer record without any field the map has the entry
  of the key \<open>"493-74-8357"\<close> with the empty string as its value.
\<close>

theorem prepare_replacements_keeps_empty_values:
  "prepare_replacements empty_customer = Inr (default_lien_items empty_customer)
   \<and> (''493-74-8357'', '''') \<in> set (default_lien_items empty_customer)"
proof -
  have "lienAmount empty_customer = None"
    by (simp add: empty_customer_def)
  then have "prepare_replacements empty_customer = Inr (default_lien_items empty_customer)"
    by (rule prepare_replacements_no_lien)
  moreover have "(''493-74-8357'', '''') \<in> set (default_lien_items empty_customer)"
    unfolding default_lien_items_def using wrapped_keys_empty(3) by (rule map_of_SomeD)
  ultimately show ?thesis by simp
qed

text \<open>
  Claim C2, amended. For every customer record for which \<^verbatim>\<open>prepare_replacements\<close>
  returns a map, no key of the map is empty and no key occurs twice. Entries whose value
  is empty stay in the map; \<^verbatim>\<open>replace_text_in_file\<close> skips them, so substituting with
  the map gives the same text as substituting with the map without these entries.
\<close>

theorem prepare_replacements_keys:
  assumes "prepare_replacements data = Inr m"
  shows "(\<forall>item \<in> set m. fst item \<noteq> [])
         \<and> distinct (map fst m)
         \<and> replace_text_in_file t m
             = replace_text_in_file t (filter (\<lambda>item. snd item \<noteq> []) m)"
proof -
  obtain n a b c d where m: "m = replacement_items data n a b c d"
    using prepare_replacements_items [OF assms] by blast
  have keys: "\<forall>item \<in> set m. fst item \<noteq> []"
    unfolding m by (rule replacement_keys_nonempty)
  have "distinct (map fst m)"
    unfolding m by (rule replacement_keys_distinct)
  moreover have "replace_text_in_file t m
      = replace_text_in_file t (filter (\<lambda>item. snd item \<noteq> []) m)"
    using skip_empty_values [OF keys] by (simp add: replace_text_in_file_active)
  ultimately show ?thesis using keys by simp
qed

theorem prepare_replacements_keys_witness:
  "prepare_replacements empty_customer = Inr (default_lien_items empty_customer)
   \<and> [] \<notin> set (map fst (default_lien_items empty_customer))
   \<and> distinct (map fst (default_lien_items empty_customer))
   \<and> replace_text_in_file ''SSN 493-74-8357'' (default_lien_items empty_customer)
       = replace_text_in_file ''SSN 493-74-8357''
           (filter (\<lambda>item. snd item \<noteq> []) (default_lien_items empty_customer))"
proof -
  have "lienAmount empty_customer = None"
    by (simp add: empty_customer_def)
  then have p: "prepare_replacements empty_customer = Inr (default_lien_items empty_customer)"
    by (rule prepare_replacements_no_lien)
  from prepare_replacements_keys [OF p, of "''SSN 493-74-8357''"] p show ?thesis
    by (auto simp del: distinct_map)
qed

text \<open>
  Claim C6, as the specification states it: the key \<open>"4/7/2025"\<close> is mapped to the
  document date in slash-separated numeric form. The code maps it to the document date as
  the record gives it: for the sample record of \<^verbatim>\<open>main\<close>, whose document date is
  \<open>"2025-01-15"\<close>, the value is \<open>"2025-01-15"\<close>, which has no slash.
\<close>

theorem slash_key_keeps_iso_form:
  "documentDate sample_data = Some ''2025-01-15''
   \<and> prepare_replacements sample_data = Inr (default_lien_items sample_data)
   \<and> map_of (default_lien_items sample_data) ''4/7/2025'' = Some ''2025-01-15''
   \<and> CHR ''/'' \<notin> set ''2025-01-15''"
  using prepare_replacements_sample slash_key_sample
  by (simp add: sample_data_def default_lien_items_def)

text \<open>
  Claim C6, amended. For every customer record with a document date, the map built by
  \<^verbatim>\<open>prepare_replacements\<close> maps the key \<open>"4/7/2025"\<close> to the document date exactly as
  the record gives it, without reformatting.
\<close>

theorem slash_key_verbatim:
  assumes "prepare_replacements data = Inr m" and "documentDate data = Some s"
  shows "map_of m ''4/7/2025'' = Some s"
proof -
  obtain n a b c d where m: "m = replacement_items data n a b c d"
    using prepare_replacements_items [OF assms(1)] by blast
  show ?thesis
    unfolding m using assms(2) by (simp add: slash_key get_def)
qed

theorem slash_key_verbatim_witness:
  "prepare_replacements sample_data = Inr (default_lien_items sample_data)
   \<and> documentDate sample_data = Some ''2025-01-15''
   \<and> map_of (default_lien_items sample_data) ''4/7/2025'' = Some ''2025-01-15''"
proof -
  have d: "documentDate sample_data = Some ''2025-01-15''"
    by (simp add: sample_data_def)
  from slash_key_verbatim [OF prepare_replacements_sample d] prepare_replacements_sample d
  show ?thesis by simp
qed

text \<open>
  Claim C9, as the specification states it: every absent string field yields an
  empty-string replacement value. The code reads an absent field as the empty string and
  then builds the values from it. A value that falls back to a placeholder or adds fixed
  text to the field is not empty: for the customer record without any field the key
  \<open>"TKC020371ANP"\<close> is mapped to \<open>"XXX020371ANP"\<close> (the fallback \<open>'XXX'\<close> for an
  absent last name), the key \<open>"c/o 6316 East 113th Avenue"\<close> to \<open>"c/o "\<close> and the key
  \<open>"THOMAS KALLEN CLAYCOMB"\<close> to a single space.
\<close>

theorem absent_fields_not_all_empty:
  "lastName empty_customer = None \<and> streetAddress empty_customer = None
   \<and> firstName empty_customer = None \<and> middleName empty_customer = None
   \<and> prepare_replacements empty_customer = Inr (default_lien_items empty_customer)
   \<and> map_of (default_lien_items empty_customer) ''TKC020371ANP'' = Some ''XXX020371ANP''
   \<and> map_of (default_lien_items empty_customer) ''c/o 6316 East 113th Avenue'' = Some ''c/o ''
   \<and> map_of (default_lien_items empty_customer) ''THOMAS KALLEN CLAYCOMB'' = Some '' ''
   \<and> ''XXX020371ANP'' \<noteq> '''' \<and> ''c/o '' \<noteq> '''' \<and> '' '' \<noteq> ''''"
proof -
  have "lienAmount empty_customer = None"
    by (simp add: empty_customer_def)
  then have "prepare_replacements empty_customer = Inr (default_lien_items empty_customer)"
    by (rule prepare_replacements_no_lien)
  then show ?thesis
    using wrapped_keys_empty(1,2,4) by (simp add: empty_customer_def default_lien_items_def)
qed

text \<open>
  Claim C9, amended. \<^verbatim>\<open>prepare_replacements\<close> raises nothing when the lien amount is
  absent, whatever the other fields are, and an absent lien amount stands for the integer
  100000000. An absent string field is read as the empty string: the map is the one built
  from the record in which the field is present and empty. So a key whose value is the
  field itself is mapped to the empty string when the field is absent, while a value that
  adds fixed text to the field keeps that text and the file reference numbers get the
  prefix \<open>XXX\<close> for an absent last name.
\<close>

theorem absent_fields_default:
  "(lienAmount data = None \<longrightarrow> prepare_replacements data = Inr (default_lien_items data))
   \<and> (lienAmount data = None \<longrightarrow>
        prepare_replacements data
          = prepare_replacements (data\<lparr>lienAmount := Some (LienInt 100000000)\<rparr>))
   \<and> (firstName data = None \<longrightarrow>
        prepare_replacements data = prepare_replacements (data\<lparr>firstName := Some ''''\<rparr>))
   \<and> (middleName data = None \<longrightarrow>
        prepare_replacements data = prepare_replacements (data\<lparr>middleName := Some ''''\<rparr>))
   \<and> (lastName data = None \<longrightarrow>
        prepare_replacements data = prepare_replacements (data\<lparr>lastName := Some ''''\<rparr>))
   \<and> (ssn data = None \<longrightarrow>
        prepare_replacements data = prepare_replacements (data\<lparr>ssn := Some ''''\<rparr>))
   \<and> (documentDate data = None \<longrightarrow>
        prepare_replacements data = prepare_replacements (data\<lparr>documentDate := Some ''''\<rparr>))
   \<and> (birthDate data = None \<longrightarrow>
        prepare_replacements data = prepare_replacements (data\<lparr>birthDate := Some ''''\<rparr>))
   \<and> (streetAddress data = None \<longrightarrow>
        prepare_replacements data = prepare_replacements (data\<lparr>streetAddress := Some ''''\<rparr>))
   \<and> (city data = None \<longrightarrow>
        prepare_replacements data = prepare_replacements (data\<lparr>city := Some ''''\<rparr>))
   \<and> (state data = None \<longrightarrow>
        prepare_replacements data = prepare_replacements (data\<lparr>state := Some ''''\<rparr>))
   \<and> (zipCode data = None \<longrightarrow>
        prepare_replacements data = prepare_replacements (data\<lparr>zipCode := Some ''''\<rparr>))
   \<and> (county data = None \<longrightarrow>
        prepare_replacements data = prepare_replacements (data\<lparr>county := Some ''''\<rparr>))
   \<and> (uccFilingNumber data = None \<longrightarrow>
        prepare_replacements data = prepare_replacements (data\<lparr>uccFilingNumber := Some ''''\<rparr>))
   \<and> (uccFilingState data = None \<longrightarrow>
        prepare_replacements data = prepare_replacements (data\<lparr>uccFilingState := Some ''''\<rparr>))
   \<and> (registeredMailNumber data = None \<longrightarrow>
        prepare_replacements data = prepare_replacements (data\<lparr>registeredMailNumber := Some ''''\<rparr>))
   \<and> (dtcRoutingNumber data = None \<longrightarrow>
        prepare_replacements data = prepare_replacements (data\<lparr>dtcRoutingNumber := Some ''''\<rparr>))
   \<and> (dtcAccountNumber data = None \<longrightarrow>
        prepare_replacements data = prepare_replacements (data\<lparr>dtcAccountNumber := Some ''''\<rparr>))
   \<and> (birthCertNumber data = None \<longrightarrow>
        prepare_replacements data = prepare_replacements (data\<lparr>birthCertNumber := Some ''''\<rparr>))
   \<and> (prepare_replacements data = Inr m \<longrightarrow>
        map_of m ''493-74-8357'' = Some (get (ssn data) '''')
        \<and> map_of m ''6316 East 113th Avenue'' = Some (get (streetAddress data) '''')
        \<and> map_of m ''Temple Terrace'' = Some (get (city data) '''')
        \<and> map_of m ''Florida'' = Some (get (state data) '''')
        \<and> map_of m ''33617'' = Some (get (zipCode data) '''')
        \<and> map_of m ''Hillsborough'' = Some (get (county data) '''')
        \<and> map_of m ''XXXXXXXXXXXXX'' = Some (get (uccFilingNumber data) '''')
        \<and> map_of m ''New York'' = Some (get (uccFilingState data) '''')
        \<and> map_of m ''RF737860948US'' = Some (get (registeredMailNumber data) '''')
        \<and> map_of m ''0810-0004-5'' = Some (get (dtcRoutingNumber data) '''')
        \<and> map_of m ''053045139'' = Some (get (dtcAccountNumber data) '''')
        \<and> map_of m ''124-62-071026'' = Some (get (birthCertNumber data) ''''))"
proof -
  have total: "lienAmount data = None \<longrightarrow>
      prepare_replacements data = Inr (default_lien_items data)"
    using prepare_replacements_no_lien [of data] by blast
  have lien: "lienAmount data = None \<longrightarrow>
        prepare_replacements data
          = prepare_replacements (data\<lparr>lienAmount := Some (LienInt 100000000)\<rparr>)"
    by (auto intro!: prepare_replacements_cong simp: same_strings_def get_def)
  have f_firstName: "firstName data = None \<longrightarrow>
        prepare_replacements data = prepare_replacements (data\<lparr>firstName := Some ''''\<rparr>)"
    by (auto intro!: prepare_replacements_cong simp: same_strings_def get_def)
  have f_middleName: "middleName data = None \<longrightarrow>
        prepare_replacements data = prepare_replacements (data\<lparr>middleName := Some ''''\<rparr>)"
    by (auto intro!: prepare_replacements_cong simp: same_strings_def get_def)
  have f_lastName: "lastName data = None \<longrightarrow>
        prepare_replacements data = prepare_replacements (data\<lparr>lastName := Some ''''\<rparr>)"
    by (auto intro!: prepare_replacements_cong simp: same_strings_def get_def)
  have f_ssn: "ssn data = None \<longrightarrow>
        prepare_replacements data = prepare_replacements (data\<lparr>ssn := Some ''''\<rparr>)"
    by (auto intro!: prepare_replacements_cong simp: same_strings_def get_def)
  have f_documentDate: "documentDate data = None \<longrightarrow>
        prepare_replacements data = prepare_replacements (data\<lparr>documentDate := Some ''''\<rparr>)"
    by (auto intro!: prepare_replacements_cong simp: same_strings_def get_def)
  have f_birthDate: "birthDate data = None \<longrightarrow>
        prepare_replacements data = prepare_replacements (data\<lparr>birthDate := Some ''''\<rparr>)"
    by (auto intro!: prepare_replacements_cong simp: same_strings_def get_def)
  have f_streetAddress: "streetAddress data = None \<longrightarrow>
        prepare_replacements data = prepare_replacements (data\<lparr>streetAddress := Some ''''\<rparr>)"
    by (auto intro!: prepare_replacements_cong simp: same_strings_def get_def)
  have f_city: "city data = None \<longrightarrow>
        prepare_replacements data = prepare_replacements (data\<lparr>city := Some ''''\<rparr>)"
    by (auto intro!: prepare_replacements_cong simp: same_strings_def get_def)
  have f_state: "state data = None \<longrightarrow>
        prepare_replacements data = prepare_replacements (data\<lparr>state := Some ''''\<rparr>)"
    by (auto intro!: prepare_replacements_cong simp: same_strings_def get_def)
  have f_zipCode: "zipCode data = None \<longrightarrow>
        prepare_replacements data = prepare_replacements (data\<lparr>zipCode := Some ''''\<rparr>)"
    by (auto intro!: prepare_replacements_cong simp: same_strings_def get_def)
  have f_county: "county data = None \<longrightarrow>
        prepare_replacements data = prepare_replacements (data\<lparr>county := Some ''''\<rparr>)"
    by (auto intro!: prepare_replacements_cong simp: same_strings_def get_def)
  have f_uccFilingNumber: "uccFilingNumber data = None \<longrightarrow>
        prepare_replacements data = prepare_replacements (data\<lparr>uccFilingNumber := Some ''''\<rparr>)"
    by (auto intro!: prepare_replacements_cong simp: same_strings_def get_def)
  have f_uccFilingState: "uccFilingState data = None \<longrightarrow>
        prepare_replacements data = prepare_replacements (data\<lparr>uccFilingState := Some ''''\<rparr>)"
    by (auto intro!: prepare_replacements_cong simp: same_strings_def get_def)
  have f_registeredMailNumber: "registeredMailNumber data = None \<longrightarrow>
        prepare_replacements data = prepare_replacements (data\<lparr>registeredMailNumber := Some ''''\<rparr>)"
    by (auto intro!: prepare_replacements_cong simp: same_strings_def get_def)
  have f_dtcRoutingNumber: "dtcRoutingNumber data = None \<longrightarrow>
        prepare_replacements data = prepare_replacements (data\<lparr>dtcRoutingNumber := Some ''''\<rparr>)"
    by (auto intro!: prepare_replacements_cong simp: same_strings_def get_def)
  have f_dtcAccountNumber: "dtcAccountNumber data = None \<longrightarrow>
        prepare_replacements data = prepare_replacements (data\<lparr>dtcAccountNumber := Some ''''\<rparr>)"
    by (auto intro!: prepare_replacements_cong simp: same_strings_def get_def)
  have f_birthCertNumber: "birthCertNumber data = None \<longrightarrow>
        prepare_replacements data = prepare_replacements (data\<lparr>birthCertNumber := Some ''''\<rparr>)"
    by (auto intro!: prepare_replacements_cong simp: same_strings_def get_def)
  have direct: "prepare_replacements data = Inr m \<longrightarrow>
        map_of m ''493-74-8357'' = Some (get (ssn data) '''')
        \<and> map_of m ''6316 East 113th Avenue'' = Some (get (streetAddress data) '''')
        \<and> map_of m ''Temple Terrace'' = Some (get (city data) '''')
        \<and> map_of m ''Florida'' = Some (get (state data) '''')
        \<and> map_of m ''33617'' = Some (get (zipCode data) '''')
        \<and> map_of m ''Hillsborough'' = Some (get (county data) '''')
        \<and> map_of m ''XXXXXXXXXXXXX'' = Some (get (uccFilingNumber data) '''')
        \<and> map_of m ''New York'' = Some (get (uccFilingState data) '''')
        \<and> map_of m ''RF737860948US'' = Some (get (registeredMailNumber data) '''')
        \<and> map_of m ''0810-0004-5'' = Some (get (dtcRoutingNumber data) '''')
        \<and> map_of m ''053045139'' = Some (get (dtcAccountNumber data) '''')
        \<and> map_of m ''124-62-071026'' = Some (get (birthCertNumber data) '''')"
  proof
    assume "prepare_replacements data = Inr m"
    then obtain n a b c d where m: "m = replacement_items data n a b c d"
      using prepare_replacements_items by blast
    show "map_of m ''493-74-8357'' = Some (get (ssn data) '''')
        \<and> map_of m ''6316 East 113th Avenue'' = Some (get (streetAddress data) '''')
        \<and> map_of m ''Temple Terrace'' = Some (get (city data) '''')
        \<and> map_of m ''Florida'' = Some (get (state data) '''')
        \<and> map_of m ''33617'' = Some (get (zipCode data) '''')
        \<and> map_of m ''Hillsborough'' = Some (get (county data) '''')
        \<and> map_of m ''XXXXXXXXXXXXX'' = Some (get (uccFilingNumber data) '''')
        \<and> map_of m ''New York'' = Some (get (uccFilingState data) '''')
        \<and> map_of m ''RF737860948US'' = Some (get (registeredMailNumber data) '''')
        \<and> map_of m ''0810-0004-5'' = Some (get (dtcRoutingNumber data) '''')
        \<and> map_of m ''053045139'' = Some (get (dtcAccountNumber data) '''')
        \<and> map_of m ''124-62-071026'' = Some (get (birthCertNumber data) '''')"
      unfolding m by (simp only: direct_keys simp_thms)
  qed
  from total lien f_firstName f_middleName f_lastName f_ssn f_documentDate f_birthDate f_streetAddress f_city f_state
    f_zipCode f_county f_uccFilingNumber f_uccFilingState f_registeredMailNumber f_dtcRoutingNumber f_dtcAccountNumber f_birthCertNumber
    direct
  show ?thesis by blast
qed

theorem absent_fields_default_witness:
  "prepare_replacements empty_customer = Inr (default_lien_items empty_customer)
   \<and> prepare_replacements empty_customer
       = prepare_replacements (empty_customer\<lparr>lienAmount := Some (LienInt 100000000)\<rparr>)
   \<and> prepare_replacements empty_customer
       = prepare_replacements (empty_customer\<lparr>firstName := Some ''''\<rparr>)
   \<and> prepare_replacements empty_customer
       = prepare_replacements (empty_customer\<lparr>middleName := Some ''''\<rparr>)
   \<and> prepare_replacements empty_customer
       = prepare_replacements (empty_customer\<lparr>lastName := Some ''''\<rparr>)
   \<and> prepare_replacements empty_customer
       = prepare_replacements (empty_customer\<lparr>ssn := Some ''''\<rparr>)
   \<and> prepare_replacements empty_customer
       = prepare_replacements (empty_customer\<lparr>documentDate := Some ''''\<rparr>)
   \<and> prepare_replacements empty_customer
       = prepare_replacements (empty_customer\<lparr>birthDate := Some ''''\<rparr>)
   \<and> prepare_replacements empty_customer
       = prepare_replacements (empty_customer\<lparr>streetAddress := Some ''''\<rparr>)
   \<and> prepare_replacements empty_customer
       = prepare_replacements (empty_customer\<lparr>city := Some ''''\<rparr>)
   \<and> prepare_replacements empty_customer
       = prepare_replacements (empty_customer\<lparr>state := Some ''''\<rparr>)
   \<and> prepare_replacements empty_customer
       = prepare_replacements (empty_customer\<lparr>zipCode := Some ''''\<rparr>)
   \<and> prepare_replacements empty_customer
       = prepare_replacements (empty_customer\<lparr>county := Some ''''\<rparr>)
   \<and> prepare_replacements empty_customer
       = prepare_replacements (empty_customer\<lparr>uccFilingNumber := Some ''''\<rparr>)
   \<and> prepare_replacements empty_customer
       = prepare_replacements (empty_customer\<lparr>uccFilingState := Some ''''\<rparr>)
   \<and> prepare_replacements empty_customer
       = prepare_replacements (empty_customer\<lparr>registeredMailNumber := Some ''''\<rparr>)
   \<and> prepare_replacements empty_customer
       = prepare_replacements (empty_customer\<lparr>dtcRoutingNumber := Some ''''\<rparr>)
   \<and> prepare_replacements empty_customer
       = prepare_replacements (empty_customer\<lparr>dtcAccountNumber := Some ''''\<rparr>)
   \<and> prepare_replacements empty_customer
       = prepare_replacements (empty_customer\<lparr>birthCertNumber := Some ''''\<rparr>)
   \<and> map_of (default_lien_items empty_customer) ''493-74-8357''
       = Some (get (ssn empty_customer) '''')
   \<and> map_of (default_lien_items empty_customer) ''6316 East 113th Avenue''
       = Some (get (streetAddress empty_customer) '''')
   \<and> map_of (default_lien_items empty_customer) ''Temple Terrace''
       = Some (get (city empty_customer) '''')
   \<and> map_of (default_lien_items empty_customer) ''Florida''
       = Some (get (state empty_customer) '''')
   \<and> map_of (default_lien_items empty_customer) ''33617''
       = Some (get (zipCode empty_customer) '''')
   \<and> map_of (default_lien_items empty_customer) ''Hillsborough''
       = Some (get (county empty_customer) '''')
   \<and> map_of (default_lien_items empty_customer) ''XXXXXXXXXXXXX''
       = Some (get (uccFilingNumber empty_customer) '''')
   \<and> map_of (default_lien_items empty_customer) ''New York''
       = Some (get (uccFilingState empty_customer) '''')
   \<and> map_of (default_lien_items empty_customer) ''RF737860948US''
       = Some (get (registeredMailNumber empty_customer) '''')
   \<and> map_of (default_lien_items empty_customer) ''0810-0004-5''
       = Some (get (dtcRoutingNumber empty_customer) '''')
   \<and> map_of (default_lien_items empty_customer) ''053045139''
       = Some (get (dtcAccountNumber empty_customer) '''')
   \<and> map_of (default_lien_items empty_customer) ''124-62-071026''
       = Some (get (birthCertNumber empty_customer) '''')
   \<and> get (ssn empty_customer) '''' = ''''
   \<and> get (streetAddress empty_customer) '''' = ''''
   \<and> get (city empty_customer) '''' = ''''
   \<and> get (state empty_customer) '''' = ''''
   \<and> get (zipCode empty_customer) '''' = ''''
   \<and> get (county empty_customer) '''' = ''''
   \<and> get (uccFilingNumber empty_customer) '''' = ''''
   \<and> get (uccFilingState empty_customer) '''' = ''''
   \<and> get (registeredMailNumber empty_customer) '''' = ''''
   \<and> get (dtcRoutingNumber empty_customer) '''' = ''''
   \<and> get (dtcAccountNumber empty_customer) '''' = ''''
   \<and> get (birthCertNumber empty_customer) '''' = ''''"
proof -
  have none: "lienAmount empty_customer = None"
    "firstName empty_customer = None"
    "middleName empty_customer = None"
    "lastName empty_customer = None"
    "ssn empty_customer = None"
    "documentDate empty_customer = None"
    "birthDate empty_customer = None"
    "streetAddress empty_customer = None"
    "city empty_customer = None"
    "state empty_customer = None"
    "zipCode empty_customer = None"
    "county empty_customer = None"
    "uccFilingNumber empty_customer = None"
    "uccFilingState empty_customer = None"
    "registeredMailNumber empty_customer = None"
    "dtcRoutingNumber empty_customer = None"
    "dtcAccountNumber empty_customer = None"
    "birthCertNumber empty_customer = None"
    by (simp_all add: empty_customer_def)
  then have p: "prepare_replacements empty_customer = Inr (default_lien_items empty_customer)"
    using prepare_replacements_no_lien by blast
  have g: "get (ssn empty_customer) '''' = ''''"
    "get (streetAddress empty_customer) '''' = ''''"
    "get (city empty_customer) '''' = ''''"
    "get (state empty_customer) '''' = ''''"
    "get (zipCode empty_customer) '''' = ''''"
    "get (county empty_customer) '''' = ''''"
    "get (uccFilingNumber empty_customer) '''' = ''''"
    "get (uccFilingState empty_customer) '''' = ''''"
    "get (registeredMailNumber empty_customer) '''' = ''''"
    "get (dtcRoutingNumber empty_customer) '''' = ''''"
    "get (dtcAccountNumber empty_customer) '''' = ''''"
    "get (birthCertNumber empty_customer) '''' = ''''"
    using none by (simp_all add: get_def)
  from absent_fields_default [of empty_customer "default_lien_items empty_customer"] none p g
  show ?thesis
    by blast
qed


section \<open>The claims about the orchestrator\<close>

text \<open>
  Claim C8. When the output directory can be made, the replacement map can be built and
  the template directory can be listed, \<^verbatim>\<open>generate_package\<close> returns a result and
  raises nothing, whatever happens while the templates are processed. Every template
  (the listed names that end in \<open>.docx\<close>, sorted) is accounted for exactly once, as a
  generated file or as an error entry, so processing goes on after a failure. When the
  outcome of processing a template does not depend on the state of the world, the
  generated files are the output paths of the templates that succeed, in order, and the
  error entries pair the name of each failing template with the message of its exception,
  in order; with five templates of which exactly one fails the result lists 4 generated
  files and 1 error entry.
\<close>

theorem generate_package_continues:
  assumes "makedirs sys out_dir w = Inr w1"
    and "prepare_replacements customer_data = Inr replacements"
    and "listdir sys template_dir w1 = Inr names"
    and "templates = sort (filter (suffix ''.docx'') names)"
  shows "\<exists>r w'. generate_package sys template_dir customer_data out_dir w = Inr (r, w')
      \<and> output_dir r = out_dir
      \<and> length (generated r) + length (errors r) = length templates
      \<and> ((\<forall>v. outcome_of sys template_dir customer_data out_dir replacements v = outcome)
           \<longrightarrow>
             generated r
               = map (\<lambda>t. path_join out_dir (output_name customer_data t))
                   (filter (\<lambda>t. outcome t = None) templates)
           \<and> errors r
               = map (\<lambda>t. (t, the (outcome t))) (filter (\<lambda>t. outcome t \<noteq> None) templates)
           \<and> (length templates = 5 \<and> length (filter (\<lambda>t. outcome t \<noteq> None) templates) = 1
                \<longrightarrow> length (generated r) = 4 \<and> length (errors r) = 1))"
proof -
  let ?step = "process_template sys template_dir customer_data out_dir replacements"
  obtain g e w2 where loop: "fold ?step templates ([], [], w1) = (g, e, w2)"
    by (cases "fold ?step templates ([], [], w1)") auto
  let ?r = "\<lparr>generated = g, errors = e, output_dir = out_dir\<rparr>"
  have result: "generate_package sys template_dir customer_data out_dir w = Inr (?r, w2)"
    using assms loop by (simp add: generate_package_def)
  have count: "length g + length e = length templates"
    using fold_process_template_count [OF loop] by simp
  then have count': "length (generated ?r) + length (errors ?r) = length templates"
    by simp
  have dir: "output_dir ?r = out_dir"
    by simp
  have lists: "(\<forall>v. outcome_of sys template_dir customer_data out_dir replacements v = outcome)
           \<longrightarrow>
             generated ?r
               = map (\<lambda>t. path_join out_dir (output_name customer_data t))
                   (filter (\<lambda>t. outcome t = None) templates)
           \<and> errors ?r
               = map (\<lambda>t. (t, the (outcome t))) (filter (\<lambda>t. outcome t \<noteq> None) templates)
           \<and> (length templates = 5 \<and> length (filter (\<lambda>t. outcome t \<noteq> None) templates) = 1
                \<longrightarrow> length (generated ?r) = 4 \<and> length (errors ?r) = 1)"
  proof
    assume stateless:
      "\<forall>v. outcome_of sys template_dir customer_data out_dir replacements v = outcome"
    have l: "g = [] @ map (\<lambda>t. path_join out_dir (output_name customer_data t))
                   (filter (\<lambda>t. outcome t = None) templates)
      \<and> e = [] @ map (\<lambda>t. (t, the (outcome t))) (filter (\<lambda>t. outcome t \<noteq> None) templates)"
      using stateless loop by (rule fold_process_template_lists)
    then have "length e = length (filter (\<lambda>t. outcome t \<noteq> None) templates)"
      by simp
    with count have five: "length templates = 5
        \<and> length (filter (\<lambda>t. outcome t \<noteq> None) templates) = 1
        \<longrightarrow> length g = 4 \<and> length e = 1"
      by simp
    from l have "generated ?r = map (\<lambda>t. path_join out_dir (output_name customer_data t))
                   (filter (\<lambda>t. outcome t = None) templates)"
      and "errors ?r
               = map (\<lambda>t. (t, the (outcome t))) (filter (\<lambda>t. outcome t \<noteq> None) templates)"
      by simp_all
    moreover from five have "length templates = 5
        \<and> length (filter (\<lambda>t. outcome t \<noteq> None) templates) = 1
        \<longrightarrow> length (generated ?r) = 4 \<and> length (errors ?r) = 1"
      by simp
    ultimately show "generated ?r
               = map (\<lambda>t. path_join out_dir (output_name customer_data t))
                   (filter (\<lambda>t. outcome t = None) templates)
           \<and> errors ?r
               = map (\<lambda>t. (t, the (outcome t))) (filter (\<lambda>t. outcome t \<noteq> None) templates)
           \<and> (length templates = 5 \<and> length (filter (\<lambda>t. outcome t \<noteq> None) templates) = 1
                \<longrightarrow> length (generated ?r) = 4 \<and> length (errors ?r) = 1)"
      by blast
  qed
  from result dir count' lists show ?thesis
    by blast
qed

theorem generate_package_continues_witness:
  "makedirs one_fails ''out'' () = Inr ()
   \<and> listdir one_fails ''templates'' () = Inr five_templates
   \<and> sort (filter (suffix ''.docx'') five_templates) =
       [''01_Agreement_TKC.docx'', ''02_Affidavit_JAD.docx'', ''03_Notice_TKC.docx'',
        ''04_Act_TKC.docx'', ''05_Power.docx'']
   \<and> (\<exists>r. generate_package one_fails ''templates'' empty_customer ''out'' () = Inr (r, ())
        \<and> generated r = [''out/01_Agreement_Customer.docx'', ''out/03_Notice_Customer.docx'',
                          ''out/04_Act_Customer.docx'', ''out/05_Power.docx'']
        \<and> errors r = [(''02_Affidavit_JAD.docx'', ''File is not a zip file'')]
        \<and> output_dir r = ''out'')"
proof -
  let ?repl = "default_lien_items empty_customer"
  let ?ts = "[''01_Agreement_TKC.docx'', ''02_Affidavit_JAD.docx'', ''03_Notice_TKC.docx'',
        ''04_Act_TKC.docx'', ''05_Power.docx'']"
  let ?outcome = "outcome_of one_fails ''templates'' empty_customer ''out'' ?repl ()"
  have m: "makedirs one_fails ''out'' () = Inr ()"
    by (simp add: one_fails_def)
  have "lienAmount empty_customer = None"
    by (simp add: empty_customer_def)
  then have p: "prepare_replacements empty_customer = Inr ?repl"
    by (rule prepare_replacements_no_lien)
  have l: "listdir one_fails ''templates'' () = Inr five_templates"
    by (simp add: one_fails_def)
  have s: "?ts = sort (filter (suffix ''.docx'') five_templates)"
    by (simp add: sorted_templates)
  have stateless: "\<forall>v. outcome_of one_fails ''templates'' empty_customer ''out'' ?repl v = ?outcome"
    by simp
  have o: "?outcome ''01_Agreement_TKC.docx'' = None"
    "?outcome ''02_Affidavit_JAD.docx'' = Some ''File is not a zip file''"
    "?outcome ''03_Notice_TKC.docx'' = None"
    "?outcome ''04_Act_TKC.docx'' = None"
    "?outcome ''05_Power.docx'' = None"
    by (simp_all add: outcome_of_def one_fails_def path_join_def)
  have n: "path_join ''out'' (output_name empty_customer ''01_Agreement_TKC.docx'')
        = ''out/01_Agreement_Customer.docx''"
    "path_join ''out'' (output_name empty_customer ''03_Notice_TKC.docx'')
        = ''out/03_Notice_Customer.docx''"
    "path_join ''out'' (output_name empty_customer ''04_Act_TKC.docx'')
        = ''out/04_Act_Customer.docx''"
    "path_join ''out'' (output_name empty_customer ''05_Power.docx'') = ''out/05_Power.docx''"
    by (simp_all add: path_join_def output_name_def get_def empty_customer_def)
  obtain r w' where r: "generate_package one_fails ''templates'' empty_customer ''out'' ()
        = Inr (r, w')"
    and d: "output_dir r = ''out''"
    and lists: "(\<forall>v. outcome_of one_fails ''templates'' empty_customer ''out'' ?repl v = ?outcome)
       \<longrightarrow> generated r
               = map (\<lambda>t. path_join ''out'' (output_name empty_customer t))
                   (filter (\<lambda>t. ?outcome t = None) ?ts)
           \<and> errors r
               = map (\<lambda>t. (t, the (?outcome t))) (filter (\<lambda>t. ?outcome t \<noteq> None) ?ts)
           \<and> (length ?ts = 5 \<and> length (filter (\<lambda>t. ?outcome t \<noteq> None) ?ts) = 1
                \<longrightarrow> length (generated r) = 4 \<and> length (errors r) = 1)"
    using generate_package_continues [OF m p l s, of ?outcome] by blast
  from lists stateless have "generated r
               = map (\<lambda>t. path_join ''out'' (output_name empty_customer t))
                   (filter (\<lambda>t. ?outcome t = None) ?ts)"
    and "errors r
               = map (\<lambda>t. (t, the (?outcome t))) (filter (\<lambda>t. ?outcome t \<noteq> None) ?ts)"
    by blast+
  then have "generated r = [''out/01_Agreement_Customer.docx'', ''out/03_Notice_Customer.docx'',
                          ''out/04_Act_Customer.docx'', ''out/05_Power.docx'']"
    and "errors r = [(''02_Affidavit_JAD.docx'', ''File is not a zip file'')]"
    by (simp_all add: o n)
  with r d m l s show ?thesis
    by (intro conjI exI [of _ r]) simp_all
qed

text \<open>
  Claim C10. The name of an output file is the template name in which the customer's
  last name, after an underscore, stands for the token \<open>_TKC\<close> and for the token
  \<open>_JAD\<close>: both tokens are replaced, not one. A template name that holds one of the
  tokens once, with no other occurrence of a token around it or arising from the
  replacement, becomes the name with \<open>_\<close> and the last name in place of the token. When
  the record has no \<open>lastName\<close> the name \<open>Customer\<close> is used, as if the record held
  it, and not the empty string.
\<close>

theorem output_name_tokens:
  "(\<not> sublist ''_TKC'' p \<and> \<not> sublist ''_TKC'' q
      \<and> \<not> sublist ''_JAD'' (p @ ''_'' @ get (lastName data) ''Customer'' @ q)
     \<longrightarrow> output_name data (p @ ''_TKC'' @ q)
           = p @ ''_'' @ get (lastName data) ''Customer'' @ q)
   \<and> (\<not> sublist ''_JAD'' p \<and> \<not> sublist ''_JAD'' q \<and> \<not> sublist ''_TKC'' (p @ ''_JAD'' @ q)
     \<longrightarrow> output_name data (p @ ''_JAD'' @ q)
           = p @ ''_'' @ get (lastName data) ''Customer'' @ q)
   \<and> (lastName data = None
     \<longrightarrow> get (lastName data) ''Customer'' = ''Customer''
         \<and> output_name data t = output_name (data\<lparr>lastName := Some ''Customer''\<rparr>) t)
   \<and> output_name empty_customer ''01_Agreement_TKC.docx'' = ''01_Agreement_Customer.docx''
   \<and> output_name empty_customer ''02_Affidavit_JAD.docx'' = ''02_Affidavit_Customer.docx''
   \<and> output_name sample_data ''01_Agreement_TKC.docx'' = ''01_Agreement_Smith.docx''
   \<and> output_name sample_data ''02_Affidavit_JAD.docx'' = ''02_Affidavit_Smith.docx''"
proof -
  have tkc: "\<not> sublist ''_TKC'' p \<and> \<not> sublist ''_TKC'' q
      \<and> \<not> sublist ''_JAD'' (p @ ''_'' @ get (lastName data) ''Customer'' @ q)
     \<longrightarrow> output_name data (p @ ''_TKC'' @ q)
           = p @ ''_'' @ get (lastName data) ''Customer'' @ q"
    using output_name_TKC by blast
  have jad: "\<not> sublist ''_JAD'' p \<and> \<not> sublist ''_JAD'' q \<and> \<not> sublist ''_TKC'' (p @ ''_JAD'' @ q)
     \<longrightarrow> output_name data (p @ ''_JAD'' @ q)
           = p @ ''_'' @ get (lastName data) ''Customer'' @ q"
    using output_name_JAD by blast
  have absent: "lastName data = None
     \<longrightarrow> get (lastName data) ''Customer'' = ''Customer''
         \<and> output_name data t = output_name (data\<lparr>lastName := Some ''Customer''\<rparr>) t"
    using output_name_absent [of data t] by (simp add: get_def)
  from tkc jad absent output_name_examples(1,2,3,4) show ?thesis
    by blast
qed

theorem output_name_tokens_witness:
  "output_name empty_customer (''03_Notice'' @ ''_TKC'' @ ''.docx'') = ''03_Notice_Customer.docx''
   \<and> output_name sample_data (''02_Affidavit'' @ ''_JAD'' @ ''.docx'') = ''02_Affidavit_Smith.docx''
   \<and> lastName empty_customer = None
   \<and> output_name empty_customer ''04_Act_TKC.docx''
       = output_name (empty_customer\<lparr>lastName := Some ''Customer''\<rparr>) ''04_Act_TKC.docx''"
proof -
  have none: "lastName empty_customer = None"
    by (simp add: empty_customer_def)
  have smith: "get (lastName sample_data) ''Customer'' = ''Smith''"
    by (simp add: sample_data_def get_def)
  have h1: "\<not> sublist ''_TKC'' ''03_Notice'' \<and> \<not> sublist ''_TKC'' ''.docx''
      \<and> \<not> sublist ''_JAD''
           (''03_Notice'' @ ''_'' @ get (lastName empty_customer) ''Customer'' @ ''.docx'')"
    by (simp add: none get_def sublist_Cons_right)
  have h2: "\<not> sublist ''_JAD'' ''02_Affidavit'' \<and> \<not> sublist ''_JAD'' ''.docx''
      \<and> \<not> sublist ''_TKC'' (''02_Affidavit'' @ ''_JAD'' @ ''.docx'')"
    by (simp add: sublist_Cons_right)
  have 1: "output_name empty_customer (''03_Notice'' @ ''_TKC'' @ ''.docx'')
      = ''03_Notice'' @ ''_'' @ get (lastName empty_customer) ''Customer'' @ ''.docx''"
    using output_name_tokens [of "''03_Notice''" "''.docx''" empty_customer "''04_Act_TKC.docx''"]
      h1 by blast
  have 2: "output_name sample_data (''02_Affidavit'' @ ''_JAD'' @ ''.docx'')
      = ''02_Affidavit'' @ ''_'' @ get (lastName sample_data) ''Customer'' @ ''.docx''"
    using output_name_tokens [of "''02_Affidavit''" "''.docx''" sample_data "''04_Act_TKC.docx''"]
      h2 by blast
  have 3: "output_name empty_customer ''04_Act_TKC.docx''
       = output_name (empty_customer\<lparr>lastName := Some ''Customer''\<rparr>) ''04_Act_TKC.docx''"
    using output_name_tokens [of "''03_Notice''" "''.docx''" empty_customer "''04_Act_TKC.docx''"]
      none by blast
  from 1 2 3 none smith show ?thesis
    by (simp add: get_def)
qed

end
